theory Spec2Isabelle
  imports Main "HOL-Library.AList"
begin

section \<open>Go library functions used by the gateway clients\<close>

text \<open>
  Go strings are byte sequences and \<open>len\<close> counts bytes; an Isabelle \<open>string\<close> is a
  list of 8-bit characters, so \<open>length\<close> is Go's \<open>len\<close> and \<open>take\<close>/\<open>drop\<close> are Go's
  slicing (inside the bounds, which every caller below checks first).
\<close>

datatype strconv_err = ErrSyntax | ErrRange

text \<open>
  Errors as values: \<open>Errorf msg\<close> is \<open>fmt.Errorf\<close> without a wrapped cause,
  \<open>Wrapf msg e\<close> is \<open>fmt.Errorf("msg: %w", e)\<close>, \<open>NumError fn num err\<close> is
  \<open>*strconv.NumError\<close>, and \<open>Transport msg\<close> stands for any failure of an HTTP round
  trip or of decoding its body.
\<close>

datatype error =
    Errorf string
  | Wrapf string error
  | NumError string string strconv_err
  | Transport string

text \<open>\<open>strconv.lower\<close>: \<open>c | ('x' - 'X')\<close>, that is, bit 5 of the byte set.\<close>

definition lower :: "nat \<Rightarrow> nat" where
  "lower c = (if (c div 32) mod 2 = 0 then c + 32 else c)"

text \<open>
  The digit value of one byte in the loop of \<open>strconv.ParseUint\<close> (base given explicitly,
  so an underscore is not accepted): \<open>None\<close> is the \<open>default\<close> branch, a syntax error.
\<close>

definition digitVal :: "char \<Rightarrow> nat option" where
  "digitVal ch =
     (let c = (of_char ch :: nat) in
      if 48 \<le> c \<and> c \<le> 57 then Some (c - 48)
      else if 97 \<le> lower c \<and> lower c \<le> 122 then Some (lower c - 97 + 10)
      else None)"

text \<open>
  The loop of \<open>strconv.ParseUint(s, base, 64)\<close> for a base from 2 to 36. The accumulator
  is a \<open>uint64\<close>, held here as a non-negative \<open>int\<close>: below
  \<open>cutoff = maxUint64/base + 1\<close> the product \<open>n * base\<close> does not wrap, and the sum
  \<open>n1 = n * base + d\<close> wraps exactly when it exceeds \<open>maxVal\<close>, so the two tests
  \<open>n1 < n || n1 > maxVal\<close> of the source are the one test \<open>n1 > maxVal\<close>.
\<close>

definition maxVal :: int where
  "maxVal = 2 ^ 64 - 1"

definition cutoff :: "int \<Rightarrow> int" where
  "cutoff base = maxVal div base + 1"

fun parseUintLoop :: "int \<Rightarrow> int \<Rightarrow> string \<Rightarrow> strconv_err + int" where
  "parseUintLoop base n [] = Inr n"
| "parseUintLoop base n (ch # cs) =
     (case digitVal ch of
        None \<Rightarrow> Inl ErrSyntax
      | Some d \<Rightarrow>
          if int d \<ge> base then Inl ErrSyntax
          else if n \<ge> cutoff base then Inl ErrRange
          else if n * base + int d > maxVal then Inl ErrRange
          else parseUintLoop base (n * base + int d) cs)"

definition ParseUint :: "string \<Rightarrow> int \<Rightarrow> strconv_err + int" where
  "ParseUint s base = (if s = [] then Inl ErrSyntax else parseUintLoop base 0 s)"

text \<open>
  \<open>strconv.ParseInt(s, base, 64)\<close>: an optional leading sign, then \<open>ParseUint\<close>, then the
  range check against \<open>2^63\<close>. \<open>fn\<close> is the function name recorded in the error.
\<close>

definition parseInt :: "string \<Rightarrow> string \<Rightarrow> int \<Rightarrow> error + int" where
  "parseInt fn s0 base =
     (if s0 = [] then Inl (NumError fn s0 ErrSyntax)
      else
        let neg = (hd s0 = CHR ''-'');
            s = (if hd s0 = CHR ''+'' \<or> hd s0 = CHR ''-'' then tl s0 else s0)
        in case ParseUint s base of
             Inl e \<Rightarrow> Inl (NumError fn s0 e)
           | Inr un \<Rightarrow>
               if \<not> neg \<and> un \<ge> 2 ^ 63 then Inl (NumError fn s0 ErrRange)
               else if neg \<and> un > 2 ^ 63 then Inl (NumError fn s0 ErrRange)
               else Inr (if neg then - un else un))"

definition ParseInt :: "string \<Rightarrow> int \<Rightarrow> error + int" where
  "ParseInt s base = parseInt ''ParseInt'' s base"

text \<open>
  \<open>strconv.Atoi\<close> on a 64-bit platform: \<open>ParseInt(s, 10, 0)\<close> under the name \<open>Atoi\<close>; its
  fast path for short strings returns the same results.
\<close>

definition Atoi :: "string \<Rightarrow> error + int" where
  "Atoi s = parseInt ''Atoi'' s 10"

text \<open>\<open>%d\<close> of \<open>fmt.Sprintf\<close> on an integer: decimal digits, a minus sign when negative.\<close>

fun decDigits :: "nat \<Rightarrow> string" where
  "decDigits n =
     (if n < 10 then [''0123456789'' ! n]
      else decDigits (n div 10) @ [''0123456789'' ! (n mod 10)])"

declare decDigits.simps [simp del]

definition fmtInt :: "int \<Rightarrow> string" where
  "fmtInt i = (if i < 0 then CHR ''-'' # decDigits (nat (- i)) else decDigits (nat i))"

text \<open>\<open>strings.Split(s, ".")\<close>: the pieces between the dots, always at least one piece.\<close>

fun splitDot :: "string \<Rightarrow> string list" where
  "splitDot [] = [[]]"
| "splitDot (ch # cs) =
     (if ch = CHR ''.'' then [] # splitDot cs
      else (case splitDot cs of p # ps \<Rightarrow> (ch # p) # ps | [] \<Rightarrow> [[ch]]))"

text \<open>
  \<open>strings.SplitN(s, ".", 2)[0]\<close>: the text before the first dot, the whole string when
  there is no dot.
\<close>

definition beforeFirstDot :: "string \<Rightarrow> string" where
  "beforeFirstDot s = takeWhile (\<lambda>ch. ch \<noteq> CHR ''.'') s"

section \<open>EMH CASA: logical name to OBIS code\<close>

text \<open>\<open>convertToOBIS\<close> of the EMH CASA client.\<close>

definition convertToOBIS :: "string \<Rightarrow> error + string" where
  "convertToOBIS logicalName =
     (let hex = beforeFirstDot logicalName in
      if length hex \<noteq> 12 then Inl (Errorf (''unexpected logical name: '' @ logicalName))
      else
        case ParseInt (take 2 (drop 4 hex)) 16 of
          Inl err \<Rightarrow> Inl err
        | Inr c \<Rightarrow>
            (case ParseInt (take 2 (drop 6 hex)) 16 of
               Inl err \<Rightarrow> Inl err
             | Inr d \<Rightarrow>
                 (case ParseInt (take 2 (drop 8 hex)) 16 of
                    Inl err \<Rightarrow> Inl err
                  | Inr e \<Rightarrow> Inr (fmtInt c @ ''.'' @ fmtInt d @ ''.'' @ fmtInt e))))"

section \<open>The unified data model\<close>

text \<open>
  \<open>type Unit int\<close> with the DLMS/COSEM unit codes as constants. A \<open>Unit\<close> variable that
  is never assigned holds Go's zero value \<open>0\<close>.
\<close>

type_synonym Unit = int

definition UnitWatt :: Unit where "UnitWatt = 27"
definition UnitWh :: Unit where "UnitWh = 30"
definition UnitAmpere :: Unit where "UnitAmpere = 33"
definition UnitVolt :: Unit where "UnitVolt = 35"
definition UnitHertz :: Unit where "UnitHertz = 44"

text \<open>
  The format of a standardized code as the data model words it: three non-empty runs of
  decimal digits separated by exactly two dots.
\<close>

definition isDigit :: "char \<Rightarrow> bool" where
  "isDigit ch = (ch \<in> set ''0123456789'')"

definition isStandardCode :: "string \<Rightarrow> bool" where
  "isStandardCode s =
     (case splitDot s of
        [c, d, e] \<Rightarrow> c \<noteq> [] \<and> d \<noteq> [] \<and> e \<noteq> [] \<and> list_all isDigit (c @ d @ e)
      | _ \<Rightarrow> False)"

definition isHexDigit :: "char \<Rightarrow> bool" where
  "isHexDigit ch = (ch \<in> set ''0123456789abcdefABCDEF'')"

section \<open>OBIS registry\<close>

definition EnergyImport :: string where "EnergyImport = ''1.8.0''"
definition EnergyExport :: string where "EnergyExport = ''2.8.0''"
definition PowerActive :: string where "PowerActive = ''16.7.0''"
definition PowerL1 :: string where "PowerL1 = ''36.7.0''"
definition PowerL2 :: string where "PowerL2 = ''56.7.0''"
definition PowerL3 :: string where "PowerL3 = ''76.7.0''"
definition CurrentL1 :: string where "CurrentL1 = ''31.7.0''"
definition CurrentL2 :: string where "CurrentL2 = ''51.7.0''"
definition CurrentL3 :: string where "CurrentL3 = ''71.7.0''"
definition VoltageL1 :: string where "VoltageL1 = ''32.7.0''"
definition VoltageL2 :: string where "VoltageL2 = ''52.7.0''"
definition VoltageL3 :: string where "VoltageL3 = ''72.7.0''"
definition Frequency :: string where "Frequency = ''14.7.0''"

text \<open>The map literal of \<open>Description\<close>, in the order of the source; its keys are distinct.\<close>

definition descriptions :: "(string \<times> string) list" where
  "descriptions =
     [(EnergyImport, ''Total imported energy (kWh)''),
      (EnergyExport, ''Total exported energy (kWh)''),
      (PowerActive, ''Current active power (W)''),
      (PowerL1, ''Phase 1 active power (W)''),
      (PowerL2, ''Phase 2 active power (W)''),
      (PowerL3, ''Phase 3 active power (W)''),
      (CurrentL1, ''Phase 1 current (A)''),
      (CurrentL2, ''Phase 2 current (A)''),
      (CurrentL3, ''Phase 3 current (A)''),
      (VoltageL1, ''Phase 1 voltage (V)''),
      (VoltageL2, ''Phase 2 voltage (V)''),
      (VoltageL3, ''Phase 3 voltage (V)''),
      (Frequency, ''Grid frequency (Hz)'')]"

definition Description :: "string \<Rightarrow> string" where
  "Description code =
     (case map_of descriptions code of
        Some desc \<Rightarrow> desc
      | None \<Rightarrow> ''Unknown OBIS code: '' @ code)"

section \<open>PPC: unit from the OBIS code\<close>

text \<open>\<open>determineUnit\<close> of the PPC client.\<close>

definition ppc_determineUnit :: "string \<Rightarrow> Unit" where
  "ppc_determineUnit obis =
     (let parts = splitDot obis in
      if length parts \<ge> 2 then
        (if parts ! 1 = ''8'' then UnitWh
         else if parts ! 1 = ''7'' then
           (if parts ! 0 = ''16'' \<or> parts ! 0 = ''36'' \<or> parts ! 0 = ''56'' \<or> parts ! 0 = ''76''
              then UnitWatt
            else if parts ! 0 = ''31'' \<or> parts ! 0 = ''51'' \<or> parts ! 0 = ''71''
              then UnitAmpere
            else if parts ! 0 = ''32'' \<or> parts ! 0 = ''52'' \<or> parts ! 0 = ''72''
              then UnitVolt
            else if parts ! 0 = ''14'' then UnitHertz
            else UnitWatt)
         else UnitWatt)
      else UnitWatt)"

text \<open>
  Code-pattern inference as the specification words it. The first segment is the text
  before the first dot; a second segment exists when the code has a dot, and is the
  text between the first dot and the next one (or the end of the code).
\<close>

definition firstSegment :: "string \<Rightarrow> string" where
  "firstSegment code = takeWhile (\<lambda>ch. ch \<noteq> CHR ''.'') code"

definition secondSegment :: "string \<Rightarrow> string option" where
  "secondSegment code =
     (case dropWhile (\<lambda>ch. ch \<noteq> CHR ''.'') code of
        [] \<Rightarrow> None
      | _ # rest \<Rightarrow> Some (takeWhile (\<lambda>ch. ch \<noteq> CHR ''.'') rest))"

definition inferUnit_spec :: "string \<Rightarrow> Unit" where
  "inferUnit_spec code =
     (if secondSegment code = Some ''8'' then UnitWh
      else if secondSegment code = Some ''7'' then
        (if firstSegment code \<in> {''16'', ''36'', ''56'', ''76''} then UnitWatt
         else if firstSegment code \<in> {''31'', ''51'', ''71''} then UnitAmpere
         else if firstSegment code \<in> {''32'', ''52'', ''72''} then UnitVolt
         else if firstSegment code \<in> {''14''} then UnitHertz
         else UnitWatt)
      else UnitWatt)"

section \<open>Shapes of a two-character segment\<close>

text \<open>
  What the three segments of a logical name can look like: a pair of hexadecimal digits,
  which is what a logical name is documented to hold, or a sign followed by one
  hexadecimal digit, which \<open>strconv.ParseInt\<close> accepts as well.
\<close>

definition hexPair :: "char \<Rightarrow> char \<Rightarrow> bool" where
  "hexPair a b = (isHexDigit a \<and> isHexDigit b)"

definition signedPair :: "char \<Rightarrow> char \<Rightarrow> bool" where
  "signedPair a b = ((a = CHR ''+'' \<or> a = CHR ''-'') \<and> isHexDigit b)"

definition acceptedSegment :: "string \<Rightarrow> nat \<Rightarrow> bool" where
  "acceptedSegment hex i = (hexPair (hex ! i) (hex ! Suc i) \<or> signedPair (hex ! i) (hex ! Suc i))"

section \<open>Meter discovery\<close>

subsection \<open>EMH CASA\<close>

record DerivedContract =
  TafType :: string
  SensorDomains :: "string list"

text \<open>
  The fields of \<open>MeterValue\<close> carry the prefix \<open>mv_\<close>, since \<open>Reading\<close> has fields of the
  same names.
\<close>

record MeterValue =
  mv_Value :: string
  mv_Unit :: int
  mv_Scaler :: int
  mv_LogicalName :: string

record MeterReading =
  Values :: "MeterValue list"

text \<open>
  The gateway as the client sees it through \<open>getJSONContext\<close>: each endpoint answers with
  the decoded JSON body or with an error (transport failure, status other than 200,
  undecodable body, cancelled context).
  \<^item> \<open>get_derived\<close>: \<open>GET /json/metering/derived\<close>, the list of contract identifiers;
  \<^item> \<open>get_contract id\<close>: \<open>GET /json/metering/derived/id\<close>;
  \<^item> \<open>get_extended meterID\<close>: \<open>GET /json/metering/origin/meterID/extended\<close>.
\<close>

record casa_gateway =
  get_derived :: "error + string list"
  get_contract :: "string \<Rightarrow> error + DerivedContract"
  get_extended :: "string \<Rightarrow> error + MeterReading"

text \<open>The fields of the EMH CASA \<open>Client\<close> that the fetch logic reads and writes.\<close>

record casa_client =
  uri :: string
  meterID :: string

text \<open>
  The loop of \<open>discoverMeterIDContext\<close> over the contract identifiers: a contract whose
  fetch fails is skipped, the first contract with a sensor domain ends the loop.
\<close>

fun discoverLoop :: "(string \<Rightarrow> error + DerivedContract) \<Rightarrow> string list \<Rightarrow> string option" where
  "discoverLoop get [] = None"
| "discoverLoop get (cid # ids) =
     (case get cid of
        Inl err \<Rightarrow> discoverLoop get ids
      | Inr contract \<Rightarrow>
          if length (SensorDomains contract) > 0 then Some (SensorDomains contract ! 0)
          else discoverLoop get ids)"

text \<open>
  \<open>discoverMeterIDContext\<close>: the returned pair is the error (\<open>None\<close> for \<open>nil\<close>) and the
  client after the call.
\<close>

definition discoverMeterIDContext :: "casa_gateway \<Rightarrow> casa_client \<Rightarrow> error option \<times> casa_client" where
  "discoverMeterIDContext gw c =
     (case get_derived gw of
        Inl err \<Rightarrow> (Some (Wrapf ''failed to get contracts'' err), c)
      | Inr contracts \<Rightarrow>
          (case discoverLoop (get_contract gw) contracts of
             Some domain \<Rightarrow> (None, c\<lparr>meterID := domain\<rparr>)
           | None \<Rightarrow> (Some (Errorf ''no contract with sensor domains found''), c)))"

subsection \<open>Theben Conexa\<close>

record usagePoint =
  ID :: string
  TafState :: string
  TafNumber :: string

text \<open>The first loop of \<open>getUsagePointID\<close>: the first running usage point with tariff 7.\<close>

fun preferredUsagePoint :: "usagePoint list \<Rightarrow> string option" where
  "preferredUsagePoint [] = None"
| "preferredUsagePoint (up # ups) =
     (if TafState up = ''running'' \<and> TafNumber up = ''7'' then Some (ID up)
      else preferredUsagePoint ups)"

text \<open>
  \<open>getUsagePointID\<close>; its argument is the answer to the \<open>user-info\<close> request: the usage
  points of the decoded body, or the error of \<open>doJSONRequest\<close>.
\<close>

definition getUsagePointID :: "error + usagePoint list \<Rightarrow> error + string" where
  "getUsagePointID resp =
     (case resp of
        Inl err \<Rightarrow> Inl err
      | Inr ups \<Rightarrow>
          (case preferredUsagePoint ups of
             Some i \<Rightarrow> Inr i
           | None \<Rightarrow>
               if length ups > 0 then Inr (ID (ups ! 0))
               else Inl (Errorf ''no usage points found'')))"

subsection \<open>The selection policy of the specification\<close>








section \<open>IEEE 754 binary64 numbers\<close>

text \<open>
  Go's \<open>float64\<close>. \<open>Finite neg m p\<close> is the number \<open>m * 2^p\<close> with the sign \<open>neg\<close>, in the
  one form the format allows: the mantissa of a normal number is in \<open>[2^52, 2^53)\<close> and
  its exponent in \<open>[-1074, 971]\<close>; a subnormal number and zero have the exponent \<open>-1074\<close>
  and a mantissa below \<open>2^52\<close>. Equal numbers are therefore equal terms. \<open>Infinite neg\<close> is an
  infinity; all NaNs are one value.
\<close>

datatype float64 = Finite bool int int | Infinite bool | NaN

text \<open>The number of binary digits of a positive integer, \<open>0\<close> for the others.\<close>

function bitLen :: "int \<Rightarrow> int" where
  "bitLen n = (if n \<le> 0 then 0 else 1 + bitLen (n div 2))"
  by pat_completeness auto
termination
  by (relation "measure nat") auto

declare bitLen.simps [simp del]

text \<open>\<open>floorLog2 a d\<close> is the integer \<open>e\<close> with \<open>2^e \<le> a/d < 2^(e+1)\<close>, for positive \<open>a\<close> and \<open>d\<close>.\<close>

definition floorLog2 :: "int \<Rightarrow> int \<Rightarrow> int" where
  "floorLog2 a d =
     (let k = bitLen a - bitLen d in
      if (if k \<ge> 0 then a \<ge> d * 2 ^ nat k else a * 2 ^ nat (- k) \<ge> d) then k else k - 1)"

text \<open>
  Rounding to nearest, ties to even: \<open>roundRatio neg a d\<close> is the \<open>float64\<close> nearest to the
  rational \<open>a/d\<close> (\<open>a \<ge> 0\<close>, \<open>d > 0\<close>) with the sign \<open>neg\<close>. The quotient is cut at the
  exponent \<open>p\<close> of the last mantissa bit, which is \<open>e - 52\<close> for a normal number and
  \<open>-1074\<close> below the normal range; a mantissa that rounds up to \<open>2^53\<close> moves to the next
  exponent; beyond the largest exponent the result is an infinity.
\<close>

definition roundRatio :: "bool \<Rightarrow> int \<Rightarrow> int \<Rightarrow> float64" where
  "roundRatio neg a d =
     (if a = 0 then Finite neg 0 (- 1074)
      else
        let e = floorLog2 a d;
            p = max (e - 52) (- 1074);
            n = (if p < 0 then a * 2 ^ nat (- p) else a);
            d' = (if p < 0 then d else d * 2 ^ nat p);
            q = n div d';
            r = n mod d';
            m = (if 2 * r > d' \<or> (2 * r = d' \<and> odd q) then q + 1 else q);
            m' = (if m = 2 ^ 53 then 2 ^ 52 else m);
            p' = (if m = 2 ^ 53 then p + 1 else p)
        in if p' > 971 then Infinite neg else Finite neg m' p')"

text \<open>The \<open>float64\<close> nearest to \<open>m * 2^p\<close>.\<close>

definition roundDyadic :: "bool \<Rightarrow> int \<Rightarrow> int \<Rightarrow> float64" where
  "roundDyadic neg m p =
     (if p \<ge> 0 then roundRatio neg (m * 2 ^ nat p) 1 else roundRatio neg m (2 ^ nat (- p)))"

text \<open>The conversion \<open>float64(n)\<close> of an integer.\<close>

definition float64_of_int :: "int \<Rightarrow> float64" where
  "float64_of_int n = roundRatio (n < 0) \<bar>n\<bar> 1"

text \<open>The product \<open>x * y\<close> of IEEE 754: exact product, rounded once.\<close>

fun fmul :: "float64 \<Rightarrow> float64 \<Rightarrow> float64" where
  "fmul NaN y = NaN"
| "fmul x NaN = NaN"
| "fmul (Infinite s) (Infinite t) = Infinite (s \<noteq> t)"
| "fmul (Infinite s) (Finite t n q) = (if n = 0 then NaN else Infinite (s \<noteq> t))"
| "fmul (Finite s m p) (Infinite t) = (if m = 0 then NaN else Infinite (s \<noteq> t))"
| "fmul (Finite s m p) (Finite t n q) = roundDyadic (s \<noteq> t) (m * n) (p + q)"

text \<open>The quotient \<open>x / y\<close> of IEEE 754: exact quotient, rounded once.\<close>

fun fdiv :: "float64 \<Rightarrow> float64 \<Rightarrow> float64" where
  "fdiv NaN y = NaN"
| "fdiv x NaN = NaN"
| "fdiv (Infinite s) (Infinite t) = NaN"
| "fdiv (Infinite s) (Finite t n q) = Infinite (s \<noteq> t)"
| "fdiv (Finite s m p) (Infinite t) = Finite (s \<noteq> t) 0 (- 1074)"
| "fdiv (Finite s m p) (Finite t n q) =
     (if n = 0 then (if m = 0 then NaN else Infinite (s \<noteq> t))
      else if p \<ge> q then roundRatio (s \<noteq> t) (m * 2 ^ nat (p - q)) n
      else roundRatio (s \<noteq> t) m (n * 2 ^ nat (q - p)))"

text \<open>The sum \<open>x + y\<close> of IEEE 754; an exact zero sum is \<open>+0\<close> unless both terms are \<open>-0\<close>.\<close>

fun fadd :: "float64 \<Rightarrow> float64 \<Rightarrow> float64" where
  "fadd NaN y = NaN"
| "fadd x NaN = NaN"
| "fadd (Infinite s) (Infinite t) = (if s = t then Infinite s else NaN)"
| "fadd (Infinite s) (Finite t n q) = Infinite s"
| "fadd (Finite s m p) (Infinite t) = Infinite t"
| "fadd (Finite s m p) (Finite t n q) =
     (let c = min p q;
          v = (if s then - m else m) * 2 ^ nat (p - c) + (if t then - n else n) * 2 ^ nat (q - c)
      in if v = 0 then Finite (s \<and> t) 0 (- 1074) else roundDyadic (v < 0) \<bar>v\<bar> c)"

text \<open>The comparison \<open>x < y\<close>; it is false when an operand is a NaN.\<close>

fun fless :: "float64 \<Rightarrow> float64 \<Rightarrow> bool" where
  "fless NaN y = False"
| "fless x NaN = False"
| "fless (Infinite s) (Infinite t) = (s \<and> \<not> t)"
| "fless (Infinite s) (Finite t n q) = s"
| "fless (Finite s m p) (Infinite t) = (\<not> t)"
| "fless (Finite s m p) (Finite t n q) =
     (let c = min p q
      in (if s then - m else m) * 2 ^ nat (p - c) < (if t then - n else n) * 2 ^ nat (q - c))"

definition f_one :: float64 where "f_one = Finite False (2 ^ 52) (- 52)"
definition f_half :: float64 where "f_half = Finite False (2 ^ 52) (- 53)"
definition f_ten :: float64 where "f_ten = Finite False (5 * 2 ^ 50) (- 49)"
definition f_zero :: float64 where "f_zero = Finite False 0 (- 1074)"

text \<open>
  \<open>math.Frexp\<close>: a finite number other than zero is split into a fraction in \<open>[1/2, 1)\<close>
  and a power of two; the other values are returned with the exponent \<open>0\<close>.
\<close>

fun Frexp :: "float64 \<Rightarrow> float64 \<times> int" where
  "Frexp (Finite s m p) =
     (if m = 0 then (Finite s m p, 0)
      else (Finite s (m * 2 ^ nat (53 - bitLen m)) (- 53), p + bitLen m))"
| "Frexp x = (x, 0)"

text \<open>
  \<open>math.Ldexp(frac, exp)\<close>: \<open>frac * 2^exp\<close>, rounded once where the result is subnormal, zero
  below the subnormal range and an infinity above the largest exponent, which is the
  \<open>float64\<close> nearest to the exact product.
\<close>

fun Ldexp :: "float64 \<Rightarrow> int \<Rightarrow> float64" where
  "Ldexp (Finite s m p) ex = (if m = 0 then Finite s m p else roundDyadic s m (p + ex))"
| "Ldexp x ex = x"

text \<open>
  The loop of \<open>math.Pow\<close> that multiplies the answer \<open>a1 * 2^ae\<close> by \<open>x^yi\<close>, with
  \<open>x = x1 * 2^xe\<close> and the bits of \<open>yi\<close> in \<open>i\<close> (\<open>i\<close> is not negative, so \<open>i >>= 1\<close> halves it).
\<close>

function powLoop :: "int \<Rightarrow> float64 \<Rightarrow> int \<Rightarrow> float64 \<Rightarrow> int \<Rightarrow> float64 \<times> int" where
  "powLoop i x1 xe a1 ae =
     (if i \<le> 0 then (a1, ae)
      else if xe < - 4096 \<or> 4096 < xe then (a1, ae + xe)
      else
        let a1' = (if odd i then fmul a1 x1 else a1);
            ae' = (if odd i then ae + xe else ae);
            x2 = fmul x1 x1;
            xe2 = xe * 2
        in if fless x2 f_half then powLoop (i div 2) (fadd x2 x2) (xe2 - 1) a1' ae'
           else powLoop (i div 2) x2 xe2 a1' ae')"
  by pat_completeness auto
termination
  by (relation "measure (\<lambda>(i, x1, xe, a1, ae). nat i)") auto

declare powLoop.simps [simp del]

text \<open>The integer that an integral finite \<open>float64\<close> denotes, without its sign.\<close>

fun magnitude :: "float64 \<Rightarrow> int" where
  "magnitude (Finite s m p) = (if p \<ge> 0 then m * 2 ^ nat p else m div 2 ^ nat (- p))"
| "magnitude x = 0"

text \<open>
  \<open>math.Pow(10, float64(n))\<close> for an \<open>int\<close> \<open>n\<close>. The exponent \<open>y = float64(n)\<close> is finite and
  integral, so of the special cases of \<open>math.Pow\<close> only \<open>y == 0\<close> and \<open>y == 1\<close> can apply,
  the fractional part \<open>yf\<close> of \<open>Modf(Abs(y))\<close> is zero, and \<open>yi\<close> is \<open>|y|\<close>. For
  \<open>yi \<ge> 2^63\<close> the result is \<open>+Inf\<close> when \<open>y > 0\<close> and \<open>0\<close> when \<open>y < 0\<close>, since \<open>|10| \<ge> 1\<close>.
\<close>

definition Pow10 :: "int \<Rightarrow> float64" where
  "Pow10 n =
     (let y = float64_of_int n in
      if y = f_zero then f_one
      else if y = f_one then f_ten
      else
        let yi = magnitude y in
        if yi \<ge> 2 ^ 63 then (if n > 0 then Infinite False else f_zero)
        else
          let (x1, xe) = Frexp f_ten;
              (a1, ae) = powLoop yi x1 xe f_one 0
          in if n < 0 then Ldexp (fdiv f_one a1) (- ae) else Ldexp a1 ae)"

section \<open>\<open>strconv.ParseFloat\<close>\<close>

text \<open>\<open>lowerIs c l\<close> is the test \<open>lower(c) == l\<close> for a lower-case letter \<open>l\<close>.\<close>

definition lowerIs :: "char \<Rightarrow> char \<Rightarrow> bool" where
  "lowerIs c l = (lower (of_char c) = of_char l)"

definition isHexLetter :: "char \<Rightarrow> bool" where
  "isHexLetter c = (97 \<le> lower (of_char c) \<and> lower (of_char c) \<le> 102)"

definition decVal :: "char \<Rightarrow> int" where
  "decVal c = int (of_char c) - 48"

definition hexLetterVal :: "char \<Rightarrow> int" where
  "hexLetterVal c = int (lower (of_char c)) - 97 + 10"

text \<open>
  \<open>commonPrefixLenIgnoreCase(s, prefix)\<close> for a lower-case \<open>prefix\<close>: upper-case ASCII
  letters of \<open>s\<close> are lowered before the comparison.
\<close>

fun commonPrefixLenIgnoreCase :: "string \<Rightarrow> string \<Rightarrow> nat" where
  "commonPrefixLenIgnoreCase (c # s) (p # prefix) =
     (let n = (of_char c :: nat);
          l = (if 65 \<le> n \<and> n \<le> 90 then n + 32 else n)
      in if l = of_char p then Suc (commonPrefixLenIgnoreCase s prefix) else 0)"
| "commonPrefixLenIgnoreCase s prefix = 0"

text \<open>
  \<open>special\<close>: an optionally signed \<open>inf\<close> or \<open>infinity\<close>, or \<open>nan\<close>, at the start of the
  string, with the number of bytes it takes. After a sign the source falls through to
  the test for \<open>infinity\<close>.
\<close>

definition specialInf :: "bool \<Rightarrow> nat \<Rightarrow> string \<Rightarrow> (float64 \<times> nat) option" where
  "specialInf neg nsign s =
     (let n0 = commonPrefixLenIgnoreCase s ''infinity'';
          n = (if 3 < n0 \<and> n0 < 8 then 3 else n0)
      in if n = 3 \<or> n = 8 then Some (Infinite neg, nsign + n) else None)"

definition special :: "string \<Rightarrow> (float64 \<times> nat) option" where
  "special s =
     (case s of
        [] \<Rightarrow> None
      | c # rest \<Rightarrow>
          if c = CHR ''+'' \<or> c = CHR ''-'' then specialInf (c = CHR ''-'') 1 rest
          else if c = CHR ''i'' \<or> c = CHR ''I'' then specialInf False 0 s
          else if c = CHR ''n'' \<or> c = CHR ''N'' then
            (if commonPrefixLenIgnoreCase s ''nan'' = 3 then Some (NaN, 3) else None)
          else None)"

text \<open>
  The mantissa loop of \<open>readFloat\<close>. The state is the mantissa read so far as an exact
  integer, the number of its digits behind the point, and the flags \<open>sawdot\<close>,
  \<open>sawdigits\<close> and \<open>underscores\<close>; the result is the state and the unread rest. The source
  keeps 19 digits (16 in base 16) and a truncation flag, and its conversions round
  correctly from them; the exact integer stands for both.
\<close>

fun mantLoop :: "bool \<Rightarrow> int \<times> int \<times> bool \<times> bool \<times> bool \<Rightarrow> string \<Rightarrow>
    (int \<times> int \<times> bool \<times> bool \<times> bool) \<times> string" where
  "mantLoop hex st [] = (st, [])"
| "mantLoop hex (mant, frac, sawdot, sawdigits, underscores) (c # cs) =
     (if c = CHR ''_'' then mantLoop hex (mant, frac, sawdot, sawdigits, True) cs
      else if c = CHR ''.'' then
        (if sawdot then ((mant, frac, sawdot, sawdigits, underscores), c # cs)
         else mantLoop hex (mant, frac, True, sawdigits, underscores) cs)
      else if isDigit c then
        mantLoop hex
          (mant * (if hex then 16 else 10) + decVal c, (if sawdot then frac + 1 else frac),
           sawdot, True, underscores) cs
      else if hex \<and> isHexLetter c then
        mantLoop hex
          (mant * 16 + hexLetterVal c, (if sawdot then frac + 1 else frac),
           sawdot, True, underscores) cs
      else ((mant, frac, sawdot, sawdigits, underscores), c # cs))"

text \<open>
  The digits of the exponent: \<open>e\<close> stops growing once it has reached 10000, an underscore
  sets the flag. The result is \<open>e\<close>, the flag and the unread rest.
\<close>

fun expLoop :: "int \<Rightarrow> bool \<Rightarrow> string \<Rightarrow> int \<times> bool \<times> string" where
  "expLoop e underscores [] = (e, underscores, [])"
| "expLoop e underscores (c # cs) =
     (if c = CHR ''_'' then expLoop e True cs
      else if isDigit c then expLoop (if e < 10000 then e * 10 + decVal c else e) underscores cs
      else (e, underscores, c # cs))"

text \<open>
  \<open>underscoreOK\<close>: an underscore must stand between digits, or between a base prefix and
  a digit. \<open>saw\<close> is the kind of the last byte: \<open>0\<close> for a digit or the prefix, \<open>1\<close> for an
  underscore, \<open>2\<close> for the start of the number or any other byte.
\<close>

fun underscoreLoop :: "bool \<Rightarrow> nat \<Rightarrow> string \<Rightarrow> bool" where
  "underscoreLoop hex saw [] = (saw \<noteq> 1)"
| "underscoreLoop hex saw (c # cs) =
     (if isDigit c \<or> (hex \<and> isHexLetter c) then underscoreLoop hex 0 cs
      else if c = CHR ''_'' then (if saw \<noteq> 0 then False else underscoreLoop hex 1 cs)
      else if saw = 1 then False
      else underscoreLoop hex 2 cs)"

definition underscoreOK :: "string \<Rightarrow> bool" where
  "underscoreOK s0 =
     (let s = (case s0 of c # cs \<Rightarrow> if c = CHR ''-'' \<or> c = CHR ''+'' then cs else s0 | [] \<Rightarrow> s0)
      in case s of
           c # d # rest \<Rightarrow>
             if c = CHR ''0'' \<and> (lowerIs d (CHR ''b'') \<or> lowerIs d (CHR ''o'') \<or> lowerIs d (CHR ''x''))
             then underscoreLoop (lowerIs d (CHR ''x'')) 0 rest
             else underscoreLoop False 2 s
         | _ \<Rightarrow> underscoreLoop False 2 s)"

text \<open>
  \<open>readFloat\<close>: \<open>None\<close> when the string does not start with a number (\<open>ok\<close> false), else
  the sign, the base-16 flag, the mantissa, the exponent of the base (10, or 2 for base
  16) and the number of bytes read.
\<close>

definition readFloat :: "string \<Rightarrow> (bool \<times> bool \<times> int \<times> int \<times> nat) option" where
  "readFloat s =
     (case s of
        [] \<Rightarrow> None
      | c0 # _ \<Rightarrow>
          let neg = (c0 = CHR ''-'');
              s1 = (if c0 = CHR ''+'' \<or> c0 = CHR ''-'' then tl s else s);
              hex = (case s1 of c # d # _ # _ \<Rightarrow> c = CHR ''0'' \<and> lowerIs d (CHR ''x'') | _ \<Rightarrow> False);
              s2 = (if hex then drop 2 s1 else s1);
              ((mant, frac, sawdot, sawdigits, u1), s3) = mantLoop hex (0, 0, False, False, False) s2
          in if \<not> sawdigits then None
             else
               let dp = (if hex then - 4 * frac else - frac) in
               (case s3 of
                  c # s4 \<Rightarrow>
                    if lowerIs c (if hex then CHR ''p'' else CHR ''e'') then
                      (case s4 of
                         [] \<Rightarrow> None
                       | c1 # _ \<Rightarrow>
                           let esign = (if c1 = CHR ''-'' then - 1 else 1);
                               s5 = (if c1 = CHR ''+'' \<or> c1 = CHR ''-'' then tl s4 else s4)
                           in (case s5 of
                                 [] \<Rightarrow> None
                               | c2 # _ \<Rightarrow>
                                   if \<not> isDigit c2 then None
                                   else
                                     let (e, u2, s6) = expLoop 0 u1 s5;
                                         n = length s - length s6
                                     in if u2 \<and> \<not> underscoreOK (take n s) then None
                                        else Some (neg, hex, mant, dp + e * esign, n)))
                    else if hex then None
                    else
                      let n = length s - length s3
                      in if u1 \<and> \<not> underscoreOK (take n s) then None
                         else Some (neg, hex, mant, dp, n)
                | [] \<Rightarrow>
                    if hex then None
                    else if u1 \<and> \<not> underscoreOK s then None
                    else Some (neg, hex, mant, dp, length s)))"

text \<open>
  The conversions of \<open>atof64\<close> return the \<open>float64\<close> nearest to the number read, and they
  report a range error together with an infinity when that number lies beyond the
  largest finite \<open>float64\<close>.
\<close>

definition nearestFloat :: "bool \<Rightarrow> bool \<Rightarrow> int \<Rightarrow> int \<Rightarrow> float64" where
  "nearestFloat neg hex mant ex =
     (let b = (if hex then 2 else 10)
      in if ex \<ge> 0 then roundRatio neg (mant * b ^ nat ex) 1
         else roundRatio neg mant (b ^ nat (- ex)))"

text \<open>
  \<open>strconv.ParseFloat(s, 64)\<close>: the value and the error that the call returns together
  (the value is \<open>0\<close> with a syntax error and an infinity with a range error).
\<close>

definition ParseFloat :: "string \<Rightarrow> float64 \<times> error option" where
  "ParseFloat s =
     (case special s of
        Some (f, n) \<Rightarrow>
          if n \<noteq> length s then (f_zero, Some (NumError ''ParseFloat'' s ErrSyntax))
          else (f, None)
      | None \<Rightarrow>
          (case readFloat s of
             None \<Rightarrow> (f_zero, Some (NumError ''ParseFloat'' s ErrSyntax))
           | Some (neg, hex, mant, ex, n) \<Rightarrow>
               if n \<noteq> length s then (f_zero, Some (NumError ''ParseFloat'' s ErrSyntax))
               else
                 (case nearestFloat neg hex mant ex of
                    Infinite sg \<Rightarrow> (Infinite sg, Some (NumError ''ParseFloat'' s ErrRange))
                  | f \<Rightarrow> (f, None))))"

section \<open>\<open>fmt.Sscanf\<close> with the format \<open>%f\<close>, and string helpers\<close>

text \<open>
  The number of bytes of a white-space rune at the head of a UTF-8 string, \<open>0\<close> when the
  string does not start with one. The white space of \<open>fmt\<close> and of \<open>unicode.IsSpace\<close> is
  U+0009 to U+000D, U+0020, U+0085, U+00A0, U+1680, U+2000 to U+200A, U+2028, U+2029,
  U+202F, U+205F and U+3000.
\<close>

definition spaceRuneLen :: "string \<Rightarrow> nat" where
  "spaceRuneLen s =
     (let b = (map of_char (take 3 s) :: nat list) in
      case b of
        [] \<Rightarrow> 0
      | b0 # bs \<Rightarrow>
          if (9 \<le> b0 \<and> b0 \<le> 13) \<or> b0 = 32 then 1
          else if b0 = 194 \<and> (take 1 bs = [133] \<or> take 1 bs = [160]) then 2
          else if b0 = 225 \<and> bs = [154, 128] then 3
          else if b0 = 226 \<and> length bs = 2 \<and> bs ! 0 = 128 \<and>
                  ((128 \<le> bs ! 1 \<and> bs ! 1 \<le> 138) \<or> bs ! 1 = 168 \<or> bs ! 1 = 169 \<or> bs ! 1 = 175)
            then 3
          else if b0 = 226 \<and> bs = [129, 159] then 3
          else if b0 = 227 \<and> bs = [128, 128] then 3
          else 0)"

text \<open>The same for a white-space rune at the end of the string.\<close>

definition spaceRuneLenEnd :: "string \<Rightarrow> nat" where
  "spaceRuneLenEnd s =
     (let b = (map of_char (take 3 (rev s)) :: nat list) in
      case b of
        [] \<Rightarrow> 0
      | b0 # bs \<Rightarrow>
          if (9 \<le> b0 \<and> b0 \<le> 13) \<or> b0 = 32 then 1
          else if (b0 = 133 \<or> b0 = 160) \<and> take 1 bs = [194] then 2
          else if b0 = 128 \<and> bs = [154, 225] then 3
          else if ((128 \<le> b0 \<and> b0 \<le> 138) \<or> b0 = 168 \<or> b0 = 169 \<or> b0 = 175) \<and> bs = [128, 226]
            then 3
          else if b0 = 159 \<and> bs = [129, 226] then 3
          else if b0 = 128 \<and> bs = [128, 227] then 3
          else 0)"

text \<open>\<open>strings.TrimSpace\<close>: leading and trailing white-space runes removed.\<close>

function trimLeft :: "string \<Rightarrow> string" where
  "trimLeft s = (if spaceRuneLen s = 0 then s else trimLeft (drop (spaceRuneLen s) s))"
  by pat_completeness auto
termination
proof (relation "measure length")
  show "wf (measure length)" by simp
next
  fix s :: string
  assume "spaceRuneLen s \<noteq> 0"
  moreover from this have "s \<noteq> []" by (auto simp: spaceRuneLen_def)
  ultimately show "(drop (spaceRuneLen s) s, s) \<in> measure length" by simp
qed

function trimRight :: "string \<Rightarrow> string" where
  "trimRight s =
     (if spaceRuneLenEnd s = 0 then s else trimRight (take (length s - spaceRuneLenEnd s) s))"
  by pat_completeness auto
termination
proof (relation "measure length")
  show "wf (measure length)" by simp
next
  fix s :: string
  assume "spaceRuneLenEnd s \<noteq> 0"
  moreover from this have "s \<noteq> []" by (auto simp: spaceRuneLenEnd_def)
  ultimately show "(take (length s - spaceRuneLenEnd s) s, s) \<in> measure length" by simp
qed

declare trimLeft.simps [simp del] trimRight.simps [simp del]

definition TrimSpace :: "string \<Rightarrow> string" where
  "TrimSpace s = trimRight (trimLeft s)"

text \<open>Lower case for the ASCII letters; every other byte is left as it is.\<close>

definition toLowerASCII :: "string \<Rightarrow> string" where
  "toLowerASCII s =
     map (\<lambda>c. case map_of (zip ''ABCDEFGHIJKLMNOPQRSTUVWXYZ'' ''abcdefghijklmnopqrstuvwxyz'') c of
                 Some l \<Rightarrow> l
               | None \<Rightarrow> c) s"

text \<open>\<open>strings.HasPrefix\<close> and \<open>strings.Contains\<close>.\<close>

fun HasPrefix :: "string \<Rightarrow> string \<Rightarrow> bool" where
  "HasPrefix s [] = True"
| "HasPrefix [] (p # ps) = False"
| "HasPrefix (c # cs) (p # ps) = (c = p \<and> HasPrefix cs ps)"

fun Contains :: "string \<Rightarrow> string \<Rightarrow> bool" where
  "Contains [] substr = (substr = [])"
| "Contains (c # cs) substr = (HasPrefix (c # cs) substr \<or> Contains cs substr)"

text \<open>
  \<open>SkipSpace\<close> of the scanner behind \<open>Sscanf\<close>, where a newline is not a space: white space
  is skipped, a carriage return before a newline too, and a newline is an error. The
  result is the input that is left.
\<close>

function SkipSpace :: "string \<Rightarrow> error + string" where
  "SkipSpace s =
     (case s of
        [] \<Rightarrow> Inr []
      | c # cs \<Rightarrow>
          if c = CHR 0x0D \<and> take 1 cs = [CHR 0x0A] then SkipSpace cs
          else if c = CHR 0x0A then Inl (Errorf ''unexpected newline'')
          else if spaceRuneLen s = 0 then Inr s
          else SkipSpace (drop (spaceRuneLen s) s))"
  by pat_completeness auto
termination
proof (relation "measure length")
  show "wf (measure length)" by simp
next
  fix s :: string and c cs
  assume "s = c # cs"
  then show "(cs, s) \<in> measure length" by simp
next
  fix s :: string and c cs
  assume "s = c # cs" "spaceRuneLen s \<noteq> 0"
  then show "(drop (spaceRuneLen s) s, s) \<in> measure length" by simp
qed

declare SkipSpace.simps [simp del]

text \<open>
  \<open>accept\<close>: the next byte is taken into the token when it is one of \<open>ok\<close>. The pair is the
  token so far and the input that is left. (The scanner reads runes; the bytes of \<open>ok\<close>
  are ASCII, so a rune of several bytes is never accepted.)
\<close>

definition accept :: "string \<Rightarrow> string \<times> string \<Rightarrow> bool \<times> string \<times> string" where
  "accept ok st =
     (case snd st of
        [] \<Rightarrow> (False, st)
      | c # cs \<Rightarrow> if c \<in> set ok then (True, fst st @ [c], cs) else (False, st))"

text \<open>The loop \<open>for s.accept(ok) {}\<close>.\<close>

fun acceptMany :: "string \<Rightarrow> string \<Rightarrow> string \<Rightarrow> string \<times> string" where
  "acceptMany ok buf [] = (buf, [])"
| "acceptMany ok buf (c # cs) =
     (if c \<in> set ok then acceptMany ok (buf @ [c]) cs else (buf, c # cs))"

text \<open>\<open>floatToken\<close>: the longest prefix of the input that looks like a number.\<close>

definition floatToken :: "string \<Rightarrow> string" where
  "floatToken inp =
     (let (n1, st1) = accept ''nN'' ([], inp);
          (n2, st2) = (if n1 then accept ''aA'' st1 else (False, st1));
          (n3, st3) = (if n2 then accept ''nN'' st2 else (False, st2))
      in if n3 then fst st3
         else
           let (sg, st4) = accept ''+-'' st3;
               (i1, st5) = accept ''iI'' st4;
               (i2, st6) = (if i1 then accept ''nN'' st5 else (False, st5));
               (i3, st7) = (if i2 then accept ''fF'' st6 else (False, st6))
           in if i3 then fst st7
              else
                let (z, st8) = accept ''0'' st7;
                    (x, st9) = (if z then accept ''xX'' st8 else (False, st8));
                    digits = (if x then ''0123456789aAbBcCdDeEfF_'' else ''0123456789_'');
                    ex = (if x then ''pP'' else ''eEpP'');
                    st10 = acceptMany digits (fst st9) (snd st9);
                    (dot, st11) = accept ''.'' st10;
                    st12 = (if dot then acceptMany digits (fst st11) (snd st11) else st11);
                    (e, st13) = accept ex st12
                in if e then
                     (let (sg2, st14) = accept ''+-'' st13
                      in fst (acceptMany ''0123456789_'' (fst st14) (snd st14)))
                   else fst st13)"

text \<open>
  \<open>convertFloat\<close>: a token with a \<open>p\<close> exponent and no \<open>x\<close> is a decimal mantissa with a
  binary exponent; every other token goes to \<open>strconv.ParseFloat\<close>.
\<close>

definition convertFloat :: "string \<Rightarrow> error + float64" where
  "convertFloat str =
     (if CHR ''p'' \<in> set str \<and> CHR ''x'' \<notin> set str \<and> CHR ''X'' \<notin> set str then
        (let p = length (takeWhile (\<lambda>c. c \<noteq> CHR ''p'') str) in
         case ParseFloat (take p str) of
           (f, Some err) \<Rightarrow> Inl err
         | (f, None) \<Rightarrow>
             (case Atoi (drop (p + 1) str) of
                Inl err \<Rightarrow> Inl err
              | Inr m \<Rightarrow> Inr (Ldexp f m)))
      else
        (case ParseFloat str of
           (f, Some err) \<Rightarrow> Inl err
         | (f, None) \<Rightarrow> Inr f))"

text \<open>
  \<open>fmt.Sscanf(str, "%f", &value)\<close>: the error, or the value stored. White space before
  the number is skipped, the input must not be exhausted there, and what follows the
  token is not read.
\<close>

definition Sscanf_f :: "string \<Rightarrow> error + float64" where
  "Sscanf_f str =
     (case SkipSpace str of
        Inl err \<Rightarrow> Inl err
      | Inr inp \<Rightarrow>
          if inp = [] then Inl (Errorf ''unexpected EOF'')
          else convertFloat (floatToken inp))"

section \<open>Readings and gateway information\<close>

text \<open>
  A \<open>time.Time\<close> is held as its Unix time in nanoseconds. \<open>time.Now()\<close> is a parameter \<open>now\<close>
  of the functions below; the successive readings of the clock within one call are not
  told apart. \<open>time.Parse\<close> with the layout a client uses is a parameter too, a function
  from the text to the instant, \<open>None\<close> when the text does not parse.
\<close>

type_synonym time = int

type_synonym Quality = int

definition QualityGood :: Quality where "QualityGood = 0"
definition QualityStale :: Quality where "QualityStale = 1"
definition QualityInvalid :: Quality where "QualityInvalid = 2"

record Reading =
  Value :: float64
  Unit :: Unit
  Timestamp :: time
  OBIS :: string
  Quality :: Quality

text \<open>
  The Go map \<open>Readings\<close> is an association list with distinct keys, a key staying where
  it was first inserted: \<open>m[k] = v\<close> is \<open>AList.update k v m\<close>, \<open>len(m)\<close> is \<open>length m\<close> and the
  keys are \<open>map fst m\<close>.
\<close>

record Information =
  Name :: string
  Model :: string
  Manufacturer :: string
  FirmwareVersion :: string
  LastUpdate :: time
  Readings :: "(string \<times> Reading) list"

section \<open>EMH CASA: readings\<close>

text \<open>
  \<open>convertReading\<close>: the error of \<open>strconv.ParseFloat\<close> is dropped and the value returned
  with it is used; a unit tag outside the \<open>switch\<close> leaves \<open>unit\<close> at its zero value.
\<close>

definition convertReading :: "time \<Rightarrow> MeterValue \<Rightarrow> string \<Rightarrow> Reading" where
  "convertReading now item obis =
     (let raw = fst (ParseFloat (mv_Value item));
          val = fmul raw (Pow10 (mv_Scaler item));
          (val', unit) =
            (if mv_Unit item = 27 then (val, UnitWatt)
             else if mv_Unit item = 30 then (fdiv val (float64_of_int 1000), UnitWh)
             else if mv_Unit item = 33 then (val, UnitAmpere)
             else if mv_Unit item = 35 then (val, UnitVolt)
             else if mv_Unit item = 44 then (val, UnitHertz)
             else (val, 0))
      in \<lparr>Value = val', Unit = unit, Timestamp = now, OBIS = obis, Quality = QualityGood\<rparr>)"

text \<open>The loop of \<open>GetReadings\<close> over \<open>reading.Values\<close>, from the map built so far.\<close>

fun casaReadings :: "time \<Rightarrow> (string \<times> Reading) list \<Rightarrow> MeterValue list \<Rightarrow> (string \<times> Reading) list" where
  "casaReadings now m [] = m"
| "casaReadings now m (item # items) =
     (case convertToOBIS (mv_LogicalName item) of
        Inl err \<Rightarrow> casaReadings now m items
      | Inr obis \<Rightarrow> casaReadings now (AList.update obis (convertReading now item obis) m) items)"

text \<open>
  \<open>GetReadings\<close> of the EMH CASA client: the result of the call and the client after it.
\<close>

definition casa_GetReadings ::
    "casa_gateway \<Rightarrow> time \<Rightarrow> casa_client \<Rightarrow> (error + Information) \<times> casa_client" where
  "casa_GetReadings gw now c =
     (let (derr, c1) = (if meterID c = [] then discoverMeterIDContext gw c else (None, c)) in
      case derr of
        Some err \<Rightarrow> (Inl (Wrapf ''failed to discover meter ID'' err), c1)
      | None \<Rightarrow>
          (case get_extended gw (meterID c1) of
             Inl err \<Rightarrow> (Inl (Wrapf ''failed to get meter values'' err), c1)
           | Inr reading \<Rightarrow>
               let rs = casaReadings now [] (Values reading) in
               if length rs = 0 then (Inl (Errorf ''no valid meter values found''), c1)
               else
                 (Inr \<lparr>Name = meterID c1, Model = ''EMH CASA 1.1'', Manufacturer = ''EMH'',
                        FirmwareVersion = [], LastUpdate = now, Readings = rs\<rparr>, c1)))"

text \<open>
  The loop of the earlier \<open>GetMeterValues\<close> of the same client, which maps the codes to
  plain values: an entry whose value does not parse is skipped, and so is an entry whose
  unit tag is none of the five.
\<close>

fun legacyValues :: "(string \<times> float64) list \<Rightarrow> MeterValue list \<Rightarrow> (string \<times> float64) list" where
  "legacyValues m [] = m"
| "legacyValues m (item # items) =
     (case convertToOBIS (mv_LogicalName item) of
        Inl err \<Rightarrow> legacyValues m items
      | Inr obis \<Rightarrow>
          (case ParseFloat (mv_Value item) of
             (raw, Some err) \<Rightarrow> legacyValues m items
           | (raw, None) \<Rightarrow>
               let val = fmul raw (Pow10 (mv_Scaler item)) in
               if mv_Unit item = 27 then legacyValues (AList.update obis val m) items
               else if mv_Unit item = 30
                 then legacyValues (AList.update obis (fdiv val (float64_of_int 1000)) m) items
               else if mv_Unit item = 33 then legacyValues (AList.update obis val m) items
               else if mv_Unit item = 35 then legacyValues (AList.update obis val m) items
               else if mv_Unit item = 44 then legacyValues (AList.update obis val m) items
               else legacyValues m items))"

section \<open>Theben Conexa: readings\<close>

text \<open>
  The fields of \<open>reading\<close> and of the \<open>smgw-info\<close> answer carry the prefixes \<open>rd_\<close> and
  \<open>smgw_\<close>, since \<open>Reading\<close> and \<open>Information\<close> have fields of the same names.
\<close>

record reading =
  rd_OBIS :: string
  rd_Value :: string
  rd_CaptureTime :: string

record channel =
  ch_Readings :: "reading list"

record smgwInfo =
  smgw_FirmwareVersion :: string
  smgw_Manufacturer :: string
  smgw_Model :: string

text \<open>
  The gateway as the client sees it through \<open>doJSONRequest\<close>: the answers to the methods
  \<open>smgw-info\<close>, \<open>user-info\<close> (its usage points) and \<open>readings\<close> (its channels).
\<close>

record theben_gateway =
  smgw_info :: "error + smgwInfo"
  user_info :: "error + usagePoint list"
  readings_resp :: "error + channel list"

record theben_client =
  baseURL :: string
  usagePointID :: string

text \<open>The map literal of \<open>convertOBIS\<close>.\<close>

definition mappings :: "(string \<times> string) list" where
  "mappings =
     [(''0100010800ff'', ''1-0:1.8.0''),
      (''0100020800ff'', ''1-0:2.8.0''),
      (''0100100700ff'', ''1-0:16.7.0''),
      (''01001f0700ff'', ''1-0:31.7.0''),
      (''0100200700ff'', ''1-0:32.7.0''),
      (''0100240700ff'', ''1-0:36.7.0''),
      (''0100330700ff'', ''1-0:51.7.0''),
      (''0100340700ff'', ''1-0:52.7.0''),
      (''0100380700ff'', ''1-0:56.7.0''),
      (''0100470700ff'', ''1-0:71.7.0''),
      (''0100480700ff'', ''1-0:72.7.0''),
      (''01004c0700ff'', ''1-0:76.7.0''),
      (''01000e0700ff'', ''1-0:14.7.0'')]"

text \<open>
  \<open>convertOBIS\<close>. \<open>strings.ToLower\<close> is applied only to look the result up in \<open>mappings\<close>,
  whose keys are ASCII digits and the letters \<open>a\<close> to \<open>f\<close>; no rune outside ASCII has one
  of these as its lower case, so lowering the ASCII letters alone finds the same entry.
\<close>

definition convertOBIS :: "string \<Rightarrow> string" where
  "convertOBIS hexOBIS =
     (case map_of mappings (toLowerASCII (TrimSpace hexOBIS)) of
        Some standard \<Rightarrow> standard
      | None \<Rightarrow> [])"

text \<open>\<open>parseValue\<close>: energy values are divided by 1000, all others by 10000.\<close>

definition parseValue :: "string \<Rightarrow> string \<Rightarrow> error + float64" where
  "parseValue valueStr obis =
     (case Sscanf_f valueStr of
        Inl err \<Rightarrow> Inl err
      | Inr v \<Rightarrow>
          if Contains obis ''.8.'' then Inr (fdiv v (float64_of_int 1000))
          else Inr (fdiv v (float64_of_int 10000)))"

text \<open>\<open>strings.Split(s, ":")\<close>.\<close>

fun splitColon :: "string \<Rightarrow> string list" where
  "splitColon [] = [[]]"
| "splitColon (ch # cs) =
     (if ch = CHR '':'' then [] # splitColon cs
      else (case splitColon cs of p # ps \<Rightarrow> (ch # p) # ps | [] \<Rightarrow> [[ch]]))"

text \<open>\<open>determineUnit\<close> of the Theben client, for codes of the form \<open>1-0:C.D.E\<close>.\<close>

definition theben_determineUnit :: "string \<Rightarrow> Unit" where
  "theben_determineUnit obis =
     (let parts = splitColon obis in
      if length parts < 2 then UnitWatt
      else
        let codeParts = splitDot (parts ! 1) in
        if length codeParts < 2 then UnitWatt
        else if codeParts ! 1 = ''8'' then UnitWh
        else if codeParts ! 1 = ''7'' then
          (let c = codeParts ! 0 in
           if c = ''16'' \<or> c = ''36'' \<or> c = ''56'' \<or> c = ''76'' then UnitWatt
           else if c = ''31'' \<or> c = ''51'' \<or> c = ''71'' then UnitAmpere
           else if c = ''32'' \<or> c = ''52'' \<or> c = ''72'' then UnitVolt
           else if c = ''14'' then UnitHertz
           else UnitWatt)
        else UnitWatt)"

text \<open>
  The inner loop of \<open>getReadings\<close> over the readings of one channel; \<open>parseTime\<close> is
  \<open>time.Parse\<close> with the layout \<open>time.RFC3339\<close>.
\<close>

fun thebenReadings ::
    "(string \<Rightarrow> time option) \<Rightarrow> time \<Rightarrow> (string \<times> Reading) list \<Rightarrow> reading list \<Rightarrow>
     (string \<times> Reading) list" where
  "thebenReadings parseTime now m [] = m"
| "thebenReadings parseTime now m (r # rs) =
     (let obis = convertOBIS (rd_OBIS r) in
      if obis = [] then thebenReadings parseTime now m rs
      else
        (case parseValue (rd_Value r) obis of
           Inl err \<Rightarrow> thebenReadings parseTime now m rs
         | Inr v \<Rightarrow>
             let ts = (if rd_CaptureTime r \<noteq> [] then
                         (case parseTime (rd_CaptureTime r) of Some parsed \<Rightarrow> parsed | None \<Rightarrow> now)
                       else now);
                 unit = theben_determineUnit obis
             in thebenReadings parseTime now
                  (AList.update obis
                     \<lparr>Value = v, Unit = unit, Timestamp = ts, OBIS = obis, Quality = QualityGood\<rparr> m)
                  rs))"

text \<open>The outer loop over the channels.\<close>

fun thebenChannels ::
    "(string \<Rightarrow> time option) \<Rightarrow> time \<Rightarrow> (string \<times> Reading) list \<Rightarrow> channel list \<Rightarrow>
     (string \<times> Reading) list" where
  "thebenChannels parseTime now m [] = m"
| "thebenChannels parseTime now m (ch # chs) =
     thebenChannels parseTime now (thebenReadings parseTime now m (ch_Readings ch)) chs"

text \<open>\<open>getReadings\<close> of the Theben client; the usage point is not part of the request.\<close>

definition getReadings ::
    "theben_gateway \<Rightarrow> (string \<Rightarrow> time option) \<Rightarrow> time \<Rightarrow> error + (string \<times> Reading) list" where
  "getReadings gw parseTime now =
     (case readings_resp gw of
        Inl err \<Rightarrow> Inl err
      | Inr chs \<Rightarrow> Inr (thebenChannels parseTime now [] chs))"

text \<open>\<open>GetReadings\<close> of the Theben client: the result of the call and the client after it.\<close>

definition theben_GetReadings ::
    "theben_gateway \<Rightarrow> (string \<Rightarrow> time option) \<Rightarrow> time \<Rightarrow> theben_client \<Rightarrow>
     (error + Information) \<times> theben_client" where
  "theben_GetReadings gw parseTime now c =
     (case smgw_info gw of
        Inl err \<Rightarrow> (Inl (Wrapf ''failed to get SMGW info'' err), c)
      | Inr info \<Rightarrow>
          (case (if usagePointID c = [] then getUsagePointID (user_info gw) else Inr (usagePointID c)) of
             Inl err \<Rightarrow> (Inl (Wrapf ''failed to get usage point'' err), c)
           | Inr up \<Rightarrow>
               let c1 = c\<lparr>usagePointID := up\<rparr> in
               (case getReadings gw parseTime now of
                  Inl err \<Rightarrow> (Inl (Wrapf ''failed to get readings'' err), c1)
                | Inr rs \<Rightarrow>
                    (Inr \<lparr>Name = usagePointID c1, Model = smgw_Model info,
                           Manufacturer = smgw_Manufacturer info,
                           FirmwareVersion = smgw_FirmwareVersion info,
                           LastUpdate = now, Readings = rs\<rparr>, c1))))"

section \<open>PPC: the scraped pages\<close>

text \<open>
  A node of the tree that \<open>html.Parse\<close> returns: its type, its data (the tag name of an
  element, the text of a text node), its attributes as pairs of key and value, and its
  children in document order. The namespace of an attribute is never read.
\<close>

datatype NodeType = ErrorNode | TextNode | DocumentNode | ElementNode | CommentNode | DoctypeNode

datatype Node = Node (Type: NodeType) (Data: string) (Attr: "(string \<times> string) list")
  (children: "Node list")

text \<open>
  The gateway as the client sees it: the parsed answer to the form \<open>action=meterform\<close>
  and to \<open>action=showMeterProfile\<close> for a meter, or the error of the request, of a status
  other than 200 or of the parser.
\<close>

record ppc_gateway =
  meterform :: "error + Node"
  showMeterProfile :: "string \<Rightarrow> error + Node"

record ppc_client =
  ppc_baseURL :: string
  ppc_meterID :: string

text \<open>
  The loop of \<open>extractMeterID\<close> over the attributes of an \<open>input\<close> element; the pair is
  \<open>name\<close> and \<open>value\<close>.
\<close>

fun meterAttrs :: "string \<times> string \<Rightarrow> (string \<times> string) list \<Rightarrow> string \<times> string" where
  "meterAttrs nv [] = nv"
| "meterAttrs (name, val) ((k, v) # attrs) =
     meterAttrs
       (if k = ''name'' \<and> Contains v ''meter'' then v else name, if k = ''value'' then v else val)
       attrs"

text \<open>
  \<open>extractMeterID\<close>: the value of the node itself when it is an \<open>input\<close> element with a
  name containing \<open>meter\<close> and a value, else the first result among its children that is
  not empty, else the empty string.
\<close>

fun extractMeterID :: "Node \<Rightarrow> string"
  and extractMeterID_children :: "Node list \<Rightarrow> string" where
  "extractMeterID (Node t d attrs cs) =
     (if t = ElementNode \<and> d = ''input'' \<and> fst (meterAttrs ([], []) attrs) \<noteq> [] \<and>
         snd (meterAttrs ([], []) attrs) \<noteq> []
      then snd (meterAttrs ([], []) attrs)
      else extractMeterID_children cs)"
| "extractMeterID_children [] = []"
| "extractMeterID_children (child # cs) =
     (if extractMeterID child \<noteq> [] then extractMeterID child else extractMeterID_children cs)"

text \<open>\<open>getMeterID\<close>; its argument is the answer to the form \<open>action=meterform\<close>.\<close>

definition getMeterID :: "error + Node \<Rightarrow> error + string" where
  "getMeterID resp =
     (case resp of
        Inl err \<Rightarrow> Inl err
      | Inr doc \<Rightarrow>
          if extractMeterID doc = [] then Inl (Errorf ''meter ID not found in response'')
          else Inr (extractMeterID doc))"

text \<open>\<open>findElementByID\<close>: the first element in document order whose \<open>id\<close> attribute is \<open>i\<close>.\<close>

fun findElementByID :: "Node \<Rightarrow> string \<Rightarrow> Node option"
  and findElementByID_children :: "Node list \<Rightarrow> string \<Rightarrow> Node option" where
  "findElementByID (Node t d attrs cs) i =
     (if t = ElementNode \<and> (''id'', i) \<in> set attrs then Some (Node t d attrs cs)
      else findElementByID_children cs i)"
| "findElementByID_children [] i = None"
| "findElementByID_children (child # cs) i =
     (case findElementByID child i of
        Some n \<Rightarrow> Some n
      | None \<Rightarrow> findElementByID_children cs i)"

text \<open>\<open>extractText\<close>: the trimmed text of a text node, the trimmed concatenation for the others.\<close>

fun extractText :: "Node \<Rightarrow> string"
  and extractText_children :: "Node list \<Rightarrow> string" where
  "extractText (Node t d attrs cs) =
     (if t = TextNode then TrimSpace d else TrimSpace (extractText_children cs))"
| "extractText_children [] = []"
| "extractText_children (child # cs) = extractText child @ extractText_children cs"

definition extractCellByID :: "Node \<Rightarrow> string \<Rightarrow> string" where
  "extractCellByID row i =
     (case findElementByID row i of None \<Rightarrow> [] | Some cell \<Rightarrow> extractText cell)"

text \<open>
  The closure \<open>extractRow\<close> of \<open>extractTableRows\<close>, from the map built so far. A row with a
  code and a value is stored when the value parses; when it does not, the closure
  returns and the nodes below the row are not visited. \<open>parseTime\<close> is \<open>time.Parse\<close> with
  the layout \<open>2006-01-02 15:04:05\<close>.
\<close>

fun extractRow ::
    "(string \<Rightarrow> time option) \<Rightarrow> time \<Rightarrow> (string \<times> Reading) list \<Rightarrow> Node \<Rightarrow>
     (string \<times> Reading) list"
  and extractRow_children ::
    "(string \<Rightarrow> time option) \<Rightarrow> time \<Rightarrow> (string \<times> Reading) list \<Rightarrow> Node list \<Rightarrow>
     (string \<times> Reading) list" where
  "extractRow parseTime now m (Node t d attrs cs) =
     (if t = ElementNode \<and> d = ''tr'' \<and>
         extractCellByID (Node t d attrs cs) ''table_metervalues_col_obis'' \<noteq> [] \<and>
         extractCellByID (Node t d attrs cs) ''table_metervalues_col_wert'' \<noteq> []
      then
        (let obis = extractCellByID (Node t d attrs cs) ''table_metervalues_col_obis'';
             val = extractCellByID (Node t d attrs cs) ''table_metervalues_col_wert'';
             timestamp = extractCellByID (Node t d attrs cs) ''table_metervalues_col_timestamp''
         in case ParseFloat val of
              (v, Some err) \<Rightarrow> m
            | (v, None) \<Rightarrow>
                let unit = ppc_determineUnit obis;
                    ts = (if timestamp \<noteq> [] then
                            (case parseTime timestamp of Some parsed \<Rightarrow> parsed | None \<Rightarrow> now)
                          else now)
                in extractRow_children parseTime now
                     (AList.update obis
                        \<lparr>Value = v, Unit = unit, Timestamp = ts, OBIS = obis, Quality = QualityGood\<rparr>
                        m)
                     cs)
      else extractRow_children parseTime now m cs)"
| "extractRow_children parseTime now m [] = m"
| "extractRow_children parseTime now m (child # cs) =
     extractRow_children parseTime now (extractRow parseTime now m child) cs"

text \<open>\<open>extractReadings\<close>: the rows below the element with the id \<open>metervalue\<close>.\<close>

definition extractReadings ::
    "(string \<Rightarrow> time option) \<Rightarrow> time \<Rightarrow> Node \<Rightarrow> (string \<times> Reading) list" where
  "extractReadings parseTime now n =
     (case findElementByID n ''metervalue'' of
        None \<Rightarrow> []
      | Some table \<Rightarrow> extractRow parseTime now [] table)"

text \<open>\<open>getMeterProfile\<close>; its argument is the answer to the form \<open>action=showMeterProfile\<close>.\<close>

definition getMeterProfile ::
    "(string \<Rightarrow> time option) \<Rightarrow> time \<Rightarrow> error + Node \<Rightarrow> error + (string \<times> Reading) list" where
  "getMeterProfile parseTime now resp =
     (case resp of
        Inl err \<Rightarrow> Inl err
      | Inr doc \<Rightarrow>
          if length (extractReadings parseTime now doc) = 0 then Inl (Errorf ''no readings found'')
          else Inr (extractReadings parseTime now doc))"

text \<open>\<open>GetReadings\<close> of the PPC client: the result of the call and the client after it.\<close>

definition ppc_GetReadings ::
    "ppc_gateway \<Rightarrow> (string \<Rightarrow> time option) \<Rightarrow> time \<Rightarrow> ppc_client \<Rightarrow>
     (error + Information) \<times> ppc_client" where
  "ppc_GetReadings gw parseTime now c =
     (case (if ppc_meterID c = [] then getMeterID (meterform gw) else Inr (ppc_meterID c)) of
        Inl err \<Rightarrow> (Inl (Wrapf ''failed to get meter ID'' err), c)
      | Inr mid \<Rightarrow>
          let c1 = c\<lparr>ppc_meterID := mid\<rparr> in
          (case getMeterProfile parseTime now (showMeterProfile gw mid) of
             Inl err \<Rightarrow> (Inl (Wrapf ''failed to get meter profile'' err), c1)
           | Inr rs \<Rightarrow>
               (Inr \<lparr>Name = mid, Model = ''PPC SMGW'', Manufacturer = ''PPC'',
                      FirmwareVersion = [], LastUpdate = now, Readings = rs\<rparr>, c1)))"

text \<open>
  The nodes of a tree in document order, and the preference of the PPC client among
  them: an \<open>input\<close> element with a name containing \<open>meter\<close> and a value that is not empty.
\<close>

fun documentOrder :: "Node \<Rightarrow> Node list"
  and documentOrder_children :: "Node list \<Rightarrow> Node list" where
  "documentOrder (Node t d attrs cs) = Node t d attrs cs # documentOrder_children cs"
| "documentOrder_children [] = []"
| "documentOrder_children (child # cs) = documentOrder child @ documentOrder_children cs"

definition ppcPreferred :: "Node \<Rightarrow> bool" where
  "ppcPreferred n =
     (Type n = ElementNode \<and> Data n = ''input'' \<and> fst (meterAttrs ([], []) (Attr n)) \<noteq> [] \<and>
      snd (meterAttrs ([], []) (Attr n)) \<noteq> [])"

definition ppcIdentity :: "Node \<Rightarrow> string" where
  "ppcIdentity n = snd (meterAttrs ([], []) (Attr n))"

text \<open>
  A page with two \<open>input\<close> elements, neither with a name that contains \<open>meter\<close>, and a
  page where the second of three \<open>input\<close> elements is the preferred one.
\<close>

definition pageNoMeter :: Node where
  "pageNoMeter =
     Node DocumentNode [] []
       [Node ElementNode ''form'' []
          [Node ElementNode ''input'' [(''name'', ''action''), (''value'', ''meterform'')] [],
           Node ElementNode ''input'' [(''name'', ''mid''), (''value'', ''1EMH0012345678'')] []]]"

definition pageMeter :: Node where
  "pageMeter =
     Node DocumentNode [] []
       [Node ElementNode ''form'' []
          [Node ElementNode ''input'' [(''name'', ''action''), (''value'', ''meterform'')] [],
           Node ElementNode ''input'' [(''name'', ''meter_id''), (''value'', ''1EMH0012345678'')] [],
           Node ElementNode ''input'' [(''name'', ''meter_id2''), (''value'', ''1EMH0087654321'')] []]]"

section \<open>Example gateways\<close>

text \<open>A time parser that accepts nothing, for fetches whose readings carry no capture time.\<close>

definition noCaptureTime :: "string \<Rightarrow> time option" where
  "noCaptureTime s = None"

text \<open>
  An EMH CASA gateway whose meter \<open>meter-1\<close> reports three values, the second with a
  value that is not a number, and a client set to that meter.
\<close>

definition threeValues :: "MeterValue list" where
  "threeValues =
     [\<lparr>mv_Value = ''2500'', mv_Unit = 27, mv_Scaler = 0, mv_LogicalName = ''0100100700FF''\<rparr>,
      \<lparr>mv_Value = ''abc'', mv_Unit = 30, mv_Scaler = 0, mv_LogicalName = ''0100010800FF''\<rparr>,
      \<lparr>mv_Value = ''123450'', mv_Unit = 30, mv_Scaler = 0, mv_LogicalName = ''0100020800FF''\<rparr>]"

definition gatewayThreeValues :: casa_gateway where
  "gatewayThreeValues =
     \<lparr>get_derived = Inr [],
      get_contract = (\<lambda>i. Inl (Transport ''not reached'')),
      get_extended = (\<lambda>m. Inr \<lparr>Values = threeValues\<rparr>)\<rparr>"

definition clientMeter1 :: casa_client where
  "clientMeter1 = \<lparr>uri = ''https://smgw.local'', meterID = ''meter-1''\<rparr>"

text \<open>
  A Theben gateway with one usage point, once with no channel in the answer to
  \<open>readings\<close> and once with one channel holding one energy reading; and a client without a
  usage point.
\<close>

definition thebenInfo :: smgwInfo where
  "thebenInfo =
     \<lparr>smgw_FirmwareVersion = ''1.0'', smgw_Manufacturer = ''Theben'', smgw_Model = ''Conexa''\<rparr>"

definition thebenNoChannels :: theben_gateway where
  "thebenNoChannels =
     \<lparr>smgw_info = Inr thebenInfo,
      user_info = Inr [\<lparr>ID = ''up-1'', TafState = ''running'', TafNumber = ''7''\<rparr>],
      readings_resp = Inr []\<rparr>"

definition thebenOneReading :: theben_gateway where
  "thebenOneReading =
     \<lparr>smgw_info = Inr thebenInfo,
      user_info = Inr [\<lparr>ID = ''up-1'', TafState = ''running'', TafNumber = ''7''\<rparr>],
      readings_resp =
        Inr [\<lparr>ch_Readings =
               [\<lparr>rd_OBIS = ''0100010800ff'', rd_Value = ''12345'', rd_CaptureTime = []\<rparr>]\<rparr>]\<rparr>"

definition thebenClientUnset :: theben_client where
  "thebenClientUnset = \<lparr>baseURL = ''https://conexa.local'', usagePointID = []\<rparr>"

text \<open>
  The logical names whose three segments are pairs of hexadecimal digits, as the
  documented format has them.
\<close>

definition hexSegments :: "string \<Rightarrow> bool" where
  "hexSegments logicalName =
     (let hex = beforeFirstDot logicalName in
      hexPair (hex ! 4) (hex ! 5) \<and> hexPair (hex ! 6) (hex ! 7) \<and> hexPair (hex ! 8) (hex ! 9))"

text \<open>
  The set of codes that the rows of a scraped page offer: for every \<open>tr\<close> element of the
  tree, the text of its cell with the id \<open>table_metervalues_col_obis\<close>, when that text is
  not empty.
\<close>

definition rowCodes :: "Node list \<Rightarrow> string set" where
  "rowCodes ns =
     {k. k \<noteq> [] \<and>
         (\<exists>row \<in> set ns. Type row = ElementNode \<and> Data row = ''tr'' \<and>
            k = extractCellByID row ''table_metervalues_col_obis'')}"

text \<open>
  A meter profile page of a PPC gateway: a table with a row for imported energy and a
  row whose value is not a number.
\<close>

definition pageProfile :: Node where
  "pageProfile =
     Node DocumentNode [] []
       [Node ElementNode ''table'' [(''id'', ''metervalue'')]
          [Node ElementNode ''tr'' []
             [Node ElementNode ''td'' [(''id'', ''table_metervalues_col_obis'')]
                [Node TextNode '' 1-0:1.8.0*255 '' [] []],
              Node ElementNode ''td'' [(''id'', ''table_metervalues_col_wert'')]
                [Node TextNode ''1234.5'' [] []]],
           Node ElementNode ''tr'' []
             [Node ElementNode ''td'' [(''id'', ''table_metervalues_col_obis'')]
                [Node TextNode ''1-0:2.8.0*255'' [] []],
              Node ElementNode ''td'' [(''id'', ''table_metervalues_col_wert'')]
                [Node TextNode ''n/a'' [] []]]]]"

definition ppcGatewayProfile :: ppc_gateway where
  "ppcGatewayProfile = \<lparr>meterform = Inr pageMeter, showMeterProfile = (\<lambda>m. Inr pageProfile)\<rparr>"

section \<open>Evaluation\<close>

lemmas conv_defs = convertToOBIS_def beforeFirstDot_def ParseInt_def parseInt_def ParseUint_def digitVal_def
  lower_def cutoff_def maxVal_def fmtInt_def decDigits.simps

section \<open>Digits and two-character segments\<close>

lemma isHexDigit_of_char:
  "isHexDigit ch \<longleftrightarrow> (let c = (of_char ch :: nat) in (48 \<le> c \<and> c \<le> 57) \<or> (65 \<le> c \<and> c \<le> 70) \<or> (97 \<le> c \<and> c \<le> 102))"
  by (cases ch) (simp add: isHexDigit_def Let_def)

lemma lower_upper: "65 \<le> c \<Longrightarrow> c \<le> 90 \<Longrightarrow> lower c = c + 32"
proof -
  assume "65 \<le> c" "c \<le> 90"
  then have "c div 32 = 2" by arith
  then show ?thesis by (simp add: lower_def)
qed

lemma lower_lower: "97 \<le> c \<Longrightarrow> c \<le> 122 \<Longrightarrow> lower c = c"
proof -
  assume "97 \<le> c" "c \<le> 122"
  then have "c div 32 = 3" by arith
  then show ?thesis by (simp add: lower_def)
qed

lemma lower_other: "\<not> (65 \<le> c \<and> c \<le> 90) \<Longrightarrow> \<not> (97 \<le> c \<and> c \<le> 122) \<Longrightarrow> \<not> (97 \<le> lower c \<and> lower c \<le> 122)"
  by (auto simp: lower_def split: if_splits)

lemma digit_arith:
  fixes c :: nat
  shows "(if 48 \<le> c \<and> c \<le> 57 then Some (c - 48)
      else if 97 \<le> lower c \<and> lower c \<le> 122 then Some (lower c - 97 + 10) else None) =
     (if 48 \<le> c \<and> c \<le> 57 then Some (c - 48)
      else if 65 \<le> c \<and> c \<le> 90 then Some (c - 55)
      else if 97 \<le> c \<and> c \<le> 122 then Some (c - 87)
      else None)"
proof -
  consider "48 \<le> c \<and> c \<le> 57" | "65 \<le> c \<and> c \<le> 90" | "97 \<le> c \<and> c \<le> 122"
    | "\<not> (48 \<le> c \<and> c \<le> 57)" "\<not> (65 \<le> c \<and> c \<le> 90)" "\<not> (97 \<le> c \<and> c \<le> 122)"
    by blast
  then show ?thesis
  proof cases
    case 1
    then show ?thesis by simp
  next
    case 2
    then show ?thesis by (simp add: lower_upper)
  next
    case 3
    then show ?thesis by (simp add: lower_lower)
  next
    case 4
    then show ?thesis using lower_other[of c] by simp
  qed
qed

lemma digitVal_cases:
  "digitVal ch =
     (if 48 \<le> (of_char ch :: nat) \<and> (of_char ch :: nat) \<le> 57 then Some (of_char ch - 48)
      else if 65 \<le> (of_char ch :: nat) \<and> (of_char ch :: nat) \<le> 90 then Some (of_char ch - 55)
      else if 97 \<le> (of_char ch :: nat) \<and> (of_char ch :: nat) \<le> 122 then Some (of_char ch - 87)
      else None)"
  unfolding digitVal_def Let_def by (rule digit_arith)

lemma digitVal_hex: "isHexDigit ch \<Longrightarrow> \<exists>d. digitVal ch = Some d \<and> d < 16"
  unfolding digitVal_cases isHexDigit_of_char Let_def by auto

lemma digitVal_nonhex: "\<not> isHexDigit ch \<Longrightarrow> digitVal ch = Some d \<Longrightarrow> 16 \<le> d"
  unfolding digitVal_cases isHexDigit_of_char Let_def by (auto split: if_splits)

lemma two_chars: "Suc i < length hex \<Longrightarrow> take 2 (drop i hex) = [hex ! i, hex ! Suc i]"
proof -
  assume a: "Suc i < length hex"
  then have "drop i hex = hex ! i # drop (Suc i) hex"
    by (simp add: Cons_nth_drop_Suc)
  moreover have "drop (Suc i) hex = hex ! Suc i # drop (Suc (Suc i)) hex"
    using a by (simp add: Cons_nth_drop_Suc)
  ultimately show ?thesis by (simp add: numeral_2_eq_2)
qed

lemma parseUintLoop_one:
  "parseUintLoop 16 0 [b] = (if isHexDigit b then Inr (int (the (digitVal b))) else Inl ErrSyntax)"
proof (cases "isHexDigit b")
  case True
  then obtain d where "digitVal b = Some d" "d < 16" using digitVal_hex by blast
  then show ?thesis using True by (simp add: cutoff_def maxVal_def)
next
  case False
  then show ?thesis using digitVal_nonhex[OF False]
    by (cases "digitVal b") (simp_all add: not_le[symmetric])
qed

lemma parseUintLoop_two:
  "parseUintLoop 16 0 [a, b] =
     (if isHexDigit a \<and> isHexDigit b then Inr (int (the (digitVal a)) * 16 + int (the (digitVal b)))
      else Inl ErrSyntax)"
proof (cases "isHexDigit a")
  case a: True
  then obtain d where d: "digitVal a = Some d" "d < 16" using digitVal_hex by blast
  show ?thesis
  proof (cases "isHexDigit b")
    case True
    then obtain e where "digitVal b = Some e" "e < 16" using digitVal_hex by blast
    then show ?thesis using a True d by (simp add: cutoff_def maxVal_def)
  next
    case False
    then show ?thesis using a d digitVal_nonhex[OF False]
      by (cases "digitVal b") (simp_all add: not_le[symmetric] cutoff_def maxVal_def)
  qed
next
  case False
  then show ?thesis using digitVal_nonhex[OF False]
    by (cases "digitVal a") (simp_all add: not_le[symmetric])
qed

lemma sign_not_hex: "\<not> isHexDigit (CHR ''+'')" "\<not> isHexDigit (CHR ''-'')"
  by (simp_all add: isHexDigit_def)

lemma hexval_bound: "isHexDigit ch \<Longrightarrow> int (the (digitVal ch)) < 16"
  using digitVal_hex[of ch] by auto

lemma ParseInt_pair:
  "ParseInt [a, b] 16 =
     (if isHexDigit a \<and> isHexDigit b then Inr (int (the (digitVal a)) * 16 + int (the (digitVal b)))
      else if a = CHR ''+'' \<and> isHexDigit b then Inr (int (the (digitVal b)))
      else if a = CHR ''-'' \<and> isHexDigit b then Inr (- int (the (digitVal b)))
      else Inl (NumError ''ParseInt'' [a, b] ErrSyntax))"
proof -
  have two: "isHexDigit a \<Longrightarrow> isHexDigit b \<Longrightarrow> int (the (digitVal a)) * 16 + int (the (digitVal b)) < 2 ^ 63"
    using hexval_bound[of a] hexval_bound[of b] by simp
  have one: "isHexDigit b \<Longrightarrow> int (the (digitVal b)) < 2 ^ 63"
    using hexval_bound[of b] by simp
  show ?thesis
    using two one sign_not_hex
    by (auto simp: ParseInt_def parseInt_def ParseUint_def parseUintLoop_one parseUintLoop_two Let_def
        simp del: parseUintLoop.simps)
qed

lemma ParseInt_pair_error_iff:
  "(\<exists>err. ParseInt [a, b] 16 = Inl err) \<longleftrightarrow> \<not> hexPair a b \<and> \<not> signedPair a b"
  by (auto simp: ParseInt_pair hexPair_def signedPair_def)

lemma ParseInt_hexPair:
  assumes "hexPair a b"
  shows "\<exists>v. ParseInt [a, b] 16 = Inr v \<and> 0 \<le> v \<and> v < 256"
proof -
  have "int (the (digitVal a)) < 16" "int (the (digitVal b)) < 16"
    using assms hexval_bound by (simp_all add: hexPair_def)
  then show ?thesis using assms by (simp add: ParseInt_pair hexPair_def)
qed

lemma ParseInt_signedPair:
  assumes "signedPair a b"
  shows "\<exists>v. ParseInt [a, b] 16 = Inr v \<and> - 16 < v \<and> v < 16"
proof -
  have "int (the (digitVal b)) < 16"
    using assms hexval_bound by (simp add: signedPair_def)
  moreover have "\<not> isHexDigit a"
    using assms sign_not_hex by (auto simp: signedPair_def)
  ultimately show ?thesis using assms by (auto simp: ParseInt_pair signedPair_def)
qed

lemma isDigit_nth: "k < 10 \<Longrightarrow> isDigit (''0123456789'' ! k)"
proof -
  assume "k < 10"
  then have "k \<in> {0, 1, 2, 3, 4, 5, 6, 7, 8, 9}" by auto
  then show ?thesis by (auto simp: isDigit_def)
qed

lemma decDigits_digits: "list_all isDigit (decDigits n) \<and> decDigits n \<noteq> []"
proof (induction n rule: decDigits.induct)
  case (1 n)
  show ?case
  proof (cases "n < 10")
    case True
    then show ?thesis by (subst decDigits.simps, subst (2) decDigits.simps) (simp add: isDigit_nth)
  next
    case False
    then show ?thesis using 1
      by (subst decDigits.simps, subst (2) decDigits.simps) (simp add: isDigit_nth)
  qed
qed

lemma isDigit_not_dot: "isDigit ch \<Longrightarrow> ch \<noteq> CHR ''.''"
  by (auto simp: isDigit_def)

lemma splitDot_nodot: "CHR ''.'' \<notin> set a \<Longrightarrow> splitDot a = [a]"
  by (induction a) auto

lemma splitDot_append: "CHR ''.'' \<notin> set a \<Longrightarrow> splitDot (a @ CHR ''.'' # rest) = a # splitDot rest"
  by (induction a) auto

lemma digits_nodot: "list_all isDigit a \<Longrightarrow> CHR ''.'' \<notin> set a"
  using isDigit_not_dot by (auto simp: list_all_iff)

lemma isStandardCode_join:
  assumes "list_all isDigit a" "a \<noteq> []" "list_all isDigit b" "b \<noteq> []" "list_all isDigit c" "c \<noteq> []"
  shows "isStandardCode (a @ ''.'' @ b @ ''.'' @ c)"
proof -
  have "splitDot (a @ ''.'' @ b @ ''.'' @ c) = [a, b, c]"
    using assms by (simp add: splitDot_append splitDot_nodot digits_nodot)
  then show ?thesis using assms by (simp add: isStandardCode_def)
qed

lemma fmtInt_nonneg: "0 \<le> v \<Longrightarrow> fmtInt v = decDigits (nat v)"
  by (simp add: fmtInt_def)

section \<open>The logical-name converter\<close>

lemma segment_error_iff:
  "length hex = 12 \<Longrightarrow> i < 11 \<Longrightarrow>
   (\<exists>err. ParseInt (take 2 (drop i hex)) 16 = Inl err) \<longleftrightarrow> \<not> acceptedSegment hex i"
  by (simp add: two_chars ParseInt_pair_error_iff acceptedSegment_def)

lemma segment_ok:
  "length hex = 12 \<Longrightarrow> i < 11 \<Longrightarrow> acceptedSegment hex i \<Longrightarrow>
   \<exists>v. ParseInt (take 2 (drop i hex)) 16 = Inr v"
  using segment_error_iff[of hex i] by (cases "ParseInt (take 2 (drop i hex)) 16") auto

lemma convertToOBIS_error_iff:
  "(\<exists>err. convertToOBIS s = Inl err) \<longleftrightarrow>
     (length (beforeFirstDot s) \<noteq> 12 \<or> \<not> acceptedSegment (beforeFirstDot s) 4 \<or>
      \<not> acceptedSegment (beforeFirstDot s) 6 \<or> \<not> acceptedSegment (beforeFirstDot s) 8)"
proof (cases "length (beforeFirstDot s) = 12")
  case False
  then show ?thesis by (simp add: convertToOBIS_def)
next
  case len: True
  define hex where "hex = beforeFirstDot s"
  have l: "length hex = 12" using len hex_def by simp
  note e4 = segment_error_iff[OF l, of 4] and e6 = segment_error_iff[OF l, of 6]
    and e8 = segment_error_iff[OF l, of 8]
  have "(\<exists>err. convertToOBIS s = Inl err) \<longleftrightarrow>
        (\<exists>err. ParseInt (take 2 (drop 4 hex)) 16 = Inl err) \<or>
        (\<exists>err. ParseInt (take 2 (drop 6 hex)) 16 = Inl err) \<or>
        (\<exists>err. ParseInt (take 2 (drop 8 hex)) 16 = Inl err)"
    using l unfolding convertToOBIS_def hex_def[symmetric] Let_def
    by (auto split: sum.splits)
  then show ?thesis using e4 e6 e8 l by (simp add: hex_def)
qed

lemma convertToOBIS_hex_standard:
  assumes l: "length (beforeFirstDot s) = 12"
    and h4: "hexPair (beforeFirstDot s ! 4) (beforeFirstDot s ! 5)"
    and h6: "hexPair (beforeFirstDot s ! 6) (beforeFirstDot s ! 7)"
    and h8: "hexPair (beforeFirstDot s ! 8) (beforeFirstDot s ! 9)"
  shows "\<exists>c d e. c < 256 \<and> d < 256 \<and> e < 256 \<and>
           convertToOBIS s = Inr (decDigits c @ ''.'' @ decDigits d @ ''.'' @ decDigits e) \<and>
           isStandardCode (decDigits c @ ''.'' @ decDigits d @ ''.'' @ decDigits e)"
proof -
  define hex where "hex = beforeFirstDot s"
  have len: "length hex = 12" using l hex_def by simp
  have t4: "take 2 (drop 4 hex) = [hex ! 4, hex ! 5]"
    using two_chars[of 4 hex] len by (simp add: eval_nat_numeral)
  have t6: "take 2 (drop 6 hex) = [hex ! 6, hex ! 7]"
    using two_chars[of 6 hex] len by (simp add: eval_nat_numeral)
  have t8: "take 2 (drop 8 hex) = [hex ! 8, hex ! 9]"
    using two_chars[of 8 hex] len by (simp add: eval_nat_numeral)
  obtain c where c: "ParseInt (take 2 (drop 4 hex)) 16 = Inr c" "0 \<le> c" "c < 256"
    using ParseInt_hexPair[OF h4] t4 hex_def by auto
  obtain d where d: "ParseInt (take 2 (drop 6 hex)) 16 = Inr d" "0 \<le> d" "d < 256"
    using ParseInt_hexPair[OF h6] t6 hex_def by auto
  obtain e where e: "ParseInt (take 2 (drop 8 hex)) 16 = Inr e" "0 \<le> e" "e < 256"
    using ParseInt_hexPair[OF h8] t8 hex_def by auto
  have conv: "convertToOBIS s = Inr (decDigits (nat c) @ ''.'' @ decDigits (nat d) @ ''.'' @ decDigits (nat e))"
    using len c d e unfolding convertToOBIS_def hex_def[symmetric] Let_def
    by (simp add: fmtInt_nonneg)
  have std: "isStandardCode (decDigits (nat c) @ ''.'' @ decDigits (nat d) @ ''.'' @ decDigits (nat e))"
    by (rule isStandardCode_join) (simp_all add: decDigits_digits)
  have "nat c < 256" "nat d < 256" "nat e < 256" using c d e by simp_all
  then show ?thesis using conv std by blast
qed

text \<open>
  C5. The converter satisfies the fixed test vectors: \<open>0100100700FF\<close> gives \<open>16.7.0\<close>,
  \<open>0100010800FF\<close> gives \<open>1.8.0\<close>, \<open>0100020800FF\<close> gives \<open>2.8.0\<close>, and a decimal suffix
  is ignored: \<open>0100100700FF.1\<close> converts like \<open>0100100700FF\<close>.
\<close>

theorem C5_convertToOBIS_vectors:
  "convertToOBIS ''0100100700FF'' = Inr ''16.7.0'' \<and>
   convertToOBIS ''0100010800FF'' = Inr ''1.8.0'' \<and>
   convertToOBIS ''0100020800FF'' = Inr ''2.8.0'' \<and>
   convertToOBIS ''0100100700FF.1'' = convertToOBIS ''0100100700FF''"
  by (simp add: conv_defs)

text \<open>
  C7. The converter is to fail exactly when the hex portion does not have length 12 or one
  of the three segments is not valid hexadecimal. The lemma \<open>convertToOBIS_error_iff\<close>
  gives the exact condition of the code, which accepts a sign in front of one digit. On
  the logical name \<open>0100+10700FF\<close> the hex portion has length 12 and the segment \<open>+1\<close> is
  not a pair of hexadecimal digits, yet the conversion succeeds with \<open>1.7.0\<close>.
\<close>

theorem C7_signed_segment_accepted:
  "length (beforeFirstDot ''0100+10700FF'') = 12 \<and>
   take 2 (drop 4 (beforeFirstDot ''0100+10700FF'')) = ''+1'' \<and>
   \<not> hexPair (CHR ''+'') (CHR ''1'') \<and>
   convertToOBIS ''0100+10700FF'' = Inr ''1.7.0''"
  by (simp add: conv_defs hexPair_def isHexDigit_def)

text \<open>
  C10. Every successful conversion is to be three unsigned decimal numerals between 0 and
  255 joined by two dots, a valid standardized code. The lemma
  \<open>convertToOBIS_hex_standard\<close> shows this when the three segments are pairs of
  hexadecimal digits. On the logical name \<open>0100-F0700FF\<close> the conversion succeeds with
  \<open>-15.7.0\<close>, which carries a sign and is not a standardized code.
\<close>

theorem C10_negative_segment_output:
  "convertToOBIS ''0100-F0700FF'' = Inr ''-15.7.0'' \<and> \<not> isStandardCode ''-15.7.0''"
  by (simp add: conv_defs isStandardCode_def isDigit_def)

section \<open>Unit inference from the code pattern\<close>

lemmas registry_defs = EnergyImport_def EnergyExport_def PowerActive_def PowerL1_def PowerL2_def
  PowerL3_def CurrentL1_def CurrentL2_def CurrentL3_def VoltageL1_def VoltageL2_def
  VoltageL3_def Frequency_def

lemmas unit_defs = UnitWatt_def UnitWh_def UnitAmpere_def UnitVolt_def UnitHertz_def

lemma splitDot_unfold:
  "splitDot s = takeWhile (\<lambda>ch. ch \<noteq> CHR ''.'') s #
     (case dropWhile (\<lambda>ch. ch \<noteq> CHR ''.'') s of [] \<Rightarrow> [] | _ # rest \<Rightarrow> splitDot rest)"
  by (induction s) (auto split: list.splits)

lemma splitDot_nth0: "splitDot s ! 0 = firstSegment s"
  by (subst splitDot_unfold) (simp add: firstSegment_def)

lemma splitDot_length: "2 \<le> length (splitDot s) \<longleftrightarrow> secondSegment s \<noteq> None"
proof (cases "dropWhile (\<lambda>ch. ch \<noteq> CHR ''.'') s")
  case Nil
  have "splitDot s = [takeWhile (\<lambda>ch. ch \<noteq> CHR ''.'') s]"
    by (subst splitDot_unfold) (simp only: Nil list.case)
  moreover have "secondSegment s = None"
    by (simp only: secondSegment_def Nil list.case)
  ultimately show ?thesis by simp
next
  case (Cons a rest)
  have "splitDot rest \<noteq> []" by (subst splitDot_unfold) simp
  then have "1 \<le> length (splitDot rest)" by (cases "splitDot rest") simp_all
  then show ?thesis using Cons by (subst splitDot_unfold) (simp add: secondSegment_def)
qed

lemma splitDot_nth1: "secondSegment s = Some x \<Longrightarrow> splitDot s ! 1 = x"
proof -
  assume a: "secondSegment s = Some x"
  then obtain c rest where d: "dropWhile (\<lambda>ch. ch \<noteq> CHR ''.'') s = c # rest"
    and x: "x = takeWhile (\<lambda>ch. ch \<noteq> CHR ''.'') rest"
    by (auto simp: secondSegment_def split: list.splits)
  have "splitDot rest ! 0 = x" using x by (subst splitDot_unfold) simp
  then show ?thesis using d by (subst splitDot_unfold) simp
qed

text \<open>
  C8. Code-pattern unit inference of the PPC client is total and deterministic: it is the
  function \<open>inferUnit_spec\<close>, which reads the first and second dot-separated segments.
  A second segment \<open>8\<close> gives watt-hours; a second segment \<open>7\<close> gives watts for a first
  segment in 16, 36, 56, 76, amperes for 31, 51, 71, volts for 32, 52, 72 and hertz for
  14; every other code gives the default, watts. The result is always one of the five
  units.
\<close>

theorem C8_determineUnit_pattern:
  "ppc_determineUnit code = inferUnit_spec code \<and>
   ppc_determineUnit code \<in> {UnitWatt, UnitWh, UnitAmpere, UnitVolt, UnitHertz}"
proof -
  have eq: "ppc_determineUnit code = inferUnit_spec code"
  proof (cases "secondSegment code")
    case None
    then have "\<not> 2 \<le> length (splitDot code)" using splitDot_length by simp
    then show ?thesis using None by (simp add: ppc_determineUnit_def inferUnit_spec_def Let_def)
  next
    case (Some x)
    then have "2 \<le> length (splitDot code)" "splitDot code ! 1 = x"
      using splitDot_length splitDot_nth1 by simp_all
    then show ?thesis using Some
      by (simp add: ppc_determineUnit_def inferUnit_spec_def Let_def splitDot_nth0[simplified])
  qed
  have "inferUnit_spec code \<in> {UnitWatt, UnitWh, UnitAmpere, UnitVolt, UnitHertz}"
    by (simp add: inferUnit_spec_def)
  then show ?thesis using eq by simp
qed

section \<open>The OBIS registry\<close>

text \<open>
  C9, as stated, fails: the default of \<open>Description\<close> is not the text
  \<open>Unknown code: \<close> followed by the code.
\<close>

theorem C9_description_default_counterexample:
  "Description ''99.99.99'' \<noteq> ''Unknown code: '' @ ''99.99.99''"
  by (simp add: Description_def descriptions_def registry_defs)

text \<open>
  C9, amended. \<open>Description\<close> is total: on each of the thirteen registered constants it
  returns that constant's fixed description, and on every other code it returns
  \<open>Unknown OBIS code: \<close> followed by the code.
\<close>

theorem C9_description_total:
  "Description EnergyImport = ''Total imported energy (kWh)'' \<and>
   Description EnergyExport = ''Total exported energy (kWh)'' \<and>
   Description PowerActive = ''Current active power (W)'' \<and>
   Description PowerL1 = ''Phase 1 active power (W)'' \<and>
   Description PowerL2 = ''Phase 2 active power (W)'' \<and>
   Description PowerL3 = ''Phase 3 active power (W)'' \<and>
   Description CurrentL1 = ''Phase 1 current (A)'' \<and>
   Description CurrentL2 = ''Phase 2 current (A)'' \<and>
   Description CurrentL3 = ''Phase 3 current (A)'' \<and>
   Description VoltageL1 = ''Phase 1 voltage (V)'' \<and>
   Description VoltageL2 = ''Phase 2 voltage (V)'' \<and>
   Description VoltageL3 = ''Phase 3 voltage (V)'' \<and>
   Description Frequency = ''Grid frequency (Hz)'' \<and>
   (code \<notin> {EnergyImport, EnergyExport, PowerActive, PowerL1, PowerL2, PowerL3, CurrentL1,
               CurrentL2, CurrentL3, VoltageL1, VoltageL2, VoltageL3, Frequency} \<longrightarrow>
    Description code = ''Unknown OBIS code: '' @ code)"
  by (simp add: Description_def descriptions_def registry_defs)

theorem C9_description_total_witness:
  "''99.99.99'' \<notin> {EnergyImport, EnergyExport, PowerActive, PowerL1, PowerL2, PowerL3, CurrentL1,
               CurrentL2, CurrentL3, VoltageL1, VoltageL2, VoltageL3, Frequency} \<and>
   Description ''99.99.99'' = ''Unknown OBIS code: 99.99.99''"
  using C9_description_total [of "''99.99.99''"] by (simp add: registry_defs)

section \<open>Meter discovery\<close>






section \<open>Keys of the readings\<close>

lemmas float_defs = roundRatio_def roundDyadic_def floorLog2_def float64_of_int_def bitLen.simps
  f_zero_def f_one_def f_ten_def f_half_def

lemmas parse_defs = ParseFloat_def special_def specialInf_def readFloat_def nearestFloat_def
  isDigit_def decVal_def lowerIs_def lower_def isHexLetter_def hexLetterVal_def

lemmas scan_defs = Sscanf_f_def SkipSpace.simps spaceRuneLen_def floatToken_def accept_def
  convertFloat_def

lemma casaReadings_keys:
  "fst ` set (casaReadings now m items) =
     fst ` set m \<union> {obis. \<exists>item \<in> set items. convertToOBIS (mv_LogicalName item) = Inr obis}"
proof (induction items arbitrary: m)
  case Nil
  then show ?case by simp
next
  case (Cons item items)
  show ?case
  proof (cases "convertToOBIS (mv_LogicalName item)")
    case (Inl err)
    then show ?thesis using Cons by auto
  next
    case (Inr obis)
    then show ?thesis using Cons by (auto simp: dom_update)
  qed
qed

lemma casaReadings_distinct:
  "distinct (map fst m) \<Longrightarrow> distinct (map fst (casaReadings now m items))"
proof (induction items arbitrary: m)
  case Nil
  then show ?case by simp
next
  case (Cons item items)
  then show ?case
    by (cases "convertToOBIS (mv_LogicalName item)") (simp_all add: distinct_update)
qed

lemma casa_GetReadings_not_empty:
  "casa_GetReadings gw now c = (Inr info, c') \<Longrightarrow> Readings info \<noteq> []"
  by (auto simp: casa_GetReadings_def Let_def split: prod.splits option.splits sum.splits if_splits)

lemma convertOBIS_values: "convertOBIS s \<noteq> [] \<Longrightarrow> convertOBIS s \<in> snd ` set mappings"
proof -
  assume a: "convertOBIS s \<noteq> []"
  then obtain v where v: "map_of mappings (toLowerASCII (TrimSpace s)) = Some v"
    by (cases "map_of mappings (toLowerASCII (TrimSpace s))") (simp_all add: convertOBIS_def)
  then have "(toLowerASCII (TrimSpace s), v) \<in> set mappings" by (rule map_of_SomeD)
  then have "v \<in> snd ` set mappings" by force
  then show ?thesis using v by (simp add: convertOBIS_def)
qed

lemma thebenReadings_keys:
  "fst ` set (thebenReadings parseTime now m rs) \<subseteq> fst ` set m \<union> snd ` set mappings"
proof (induction rs arbitrary: m)
  case Nil
  then show ?case by simp
next
  case (Cons r rs)
  show ?case
  proof (cases "convertOBIS (rd_OBIS r) = []")
    case True
    then show ?thesis using Cons by simp
  next
    case False
    note v = convertOBIS_values[OF False]
    show ?thesis
    proof (cases "parseValue (rd_Value r) (convertOBIS (rd_OBIS r))")
      case (Inl err)
      then show ?thesis using False Cons by simp
    next
      case (Inr x)
      obtain rec where step: "thebenReadings parseTime now m (r # rs) =
          thebenReadings parseTime now (AList.update (convertOBIS (rd_OBIS r)) rec m) rs"
        using False Inr by (simp add: Let_def)
      have "fst ` set (thebenReadings parseTime now (AList.update (convertOBIS (rd_OBIS r)) rec m) rs)
            \<subseteq> fst ` set (AList.update (convertOBIS (rd_OBIS r)) rec m) \<union> snd ` set mappings"
        by (rule Cons.IH)
      also have "\<dots> = insert (convertOBIS (rd_OBIS r)) (fst ` set m) \<union> snd ` set mappings"
        by (simp add: dom_update)
      also have "\<dots> \<subseteq> fst ` set m \<union> snd ` set mappings"
        using v by blast
      finally show ?thesis using step by simp
    qed
  qed
qed

lemma thebenChannels_keys:
  "fst ` set (thebenChannels parseTime now m chs) \<subseteq> fst ` set m \<union> snd ` set mappings"
proof (induction chs arbitrary: m)
  case Nil
  then show ?case by simp
next
  case (Cons ch chs)
  have "fst ` set (thebenChannels parseTime now m (ch # chs)) \<subseteq>
        fst ` set (thebenReadings parseTime now m (ch_Readings ch)) \<union> snd ` set mappings"
    using Cons.IH by simp
  also have "\<dots> \<subseteq> fst ` set m \<union> snd ` set mappings"
    using thebenReadings_keys[of parseTime now m "ch_Readings ch"] by blast
  finally show ?case .
qed

lemma mappings_prefixed:
  "k \<in> snd ` set mappings \<Longrightarrow> \<exists>code. k = ''1-0:'' @ code \<and> isStandardCode code"
proof -
  assume "k \<in> snd ` set mappings"
  then have "k \<in> {''1-0:'' @ ''1.8.0'', ''1-0:'' @ ''2.8.0'', ''1-0:'' @ ''16.7.0'', ''1-0:'' @ ''31.7.0'',
      ''1-0:'' @ ''32.7.0'', ''1-0:'' @ ''36.7.0'', ''1-0:'' @ ''51.7.0'', ''1-0:'' @ ''52.7.0'',
      ''1-0:'' @ ''56.7.0'', ''1-0:'' @ ''71.7.0'', ''1-0:'' @ ''72.7.0'', ''1-0:'' @ ''76.7.0'',
      ''1-0:'' @ ''14.7.0''}"
    by (simp add: mappings_def)
  moreover have "isStandardCode ''1.8.0''" "isStandardCode ''2.8.0''" "isStandardCode ''16.7.0''"
    "isStandardCode ''31.7.0''" "isStandardCode ''32.7.0''" "isStandardCode ''36.7.0''"
    "isStandardCode ''51.7.0''" "isStandardCode ''52.7.0''" "isStandardCode ''56.7.0''"
    "isStandardCode ''71.7.0''" "isStandardCode ''72.7.0''" "isStandardCode ''76.7.0''"
    "isStandardCode ''14.7.0''"
    by (simp_all add: isStandardCode_def isDigit_def)
  ultimately show ?thesis by (elim insertE emptyE) blast+
qed

end
